theory Spec2Isabelle
  imports Main "HOL-Library.Sublist"
begin

section \<open>Strings and values of the API\<close>

text \<open>
  A JavaScript string is modelled as a \<^typ>\<open>string\<close>: one \<^typ>\<open>char\<close> per code unit,
  restricted to the code units 0..255. All the tests the validators make are on ASCII
  characters, and every code unit outside the ASCII range behaves as the non-ASCII
  characters of the model do.
\<close>

definition is_digit :: "char \<Rightarrow> bool" where
  "is_digit c = (48 \<le> (of_char c :: nat) \<and> (of_char c :: nat) \<le> 57)"

text \<open>\<^verbatim>\<open>Number(n)\<close> on a one-character string holding a decimal digit.\<close>

definition digit_val :: "char \<Rightarrow> nat" where
  "digit_val c = (of_char c :: nat) - 48"

section \<open>validators.js: validarCPF\<close>

text \<open>
  The two \<^verbatim>\<open>for\<close> loops of \<^verbatim>\<open>validarCPF\<close>:
  \<^verbatim>\<open>for (let i = 0; i < lim; i += 1) { soma += numeros[i] * (base - i); }\<close>
  with \<open>(lim, base) = (9, 10)\<close> and \<open>(10, 11)\<close>.
\<close>

function soma_pesos :: "nat list \<Rightarrow> nat \<Rightarrow> nat \<Rightarrow> nat \<Rightarrow> nat \<Rightarrow> nat" where
  "soma_pesos numeros base lim i soma =
     (if i < lim then soma_pesos numeros base lim (i + 1) (soma + numeros ! i * (base - i))
      else soma)"
  by pat_completeness auto
termination
  by (relation "measure (\<lambda>(numeros, base, lim, i, soma). lim - i)") auto

declare soma_pesos.simps [simp del]

text \<open>\<^verbatim>\<open>/^(\d)\1{10}$/.test(cpfLimpo)\<close>: one digit followed by ten copies of it.\<close>

definition todos_iguais :: "string \<Rightarrow> bool" where
  "todos_iguais s = (case s of [] \<Rightarrow> False | c # cs \<Rightarrow> is_digit c \<and> cs = replicate 10 c)"

text \<open>
  \<^verbatim>\<open>validarCPF\<close> on a string argument. The empty string is falsy and is rejected by the
  first test; \<^verbatim>\<open>cpf.replace(/\D/g, '')\<close> keeps the decimal digits.
\<close>

definition validarCPF :: "string \<Rightarrow> bool" where
  "validarCPF cpf =
     (if cpf = [] then False
      else let cpfLimpo = filter is_digit cpf in
        if length cpfLimpo \<noteq> 11 then False
        else if todos_iguais cpfLimpo then False
        else let numeros = map digit_val cpfLimpo;
                 resto = soma_pesos numeros 10 9 0 0 mod 11;
                 dv1 = (if resto < 2 then 0 else 11 - resto)
             in if numeros ! 9 \<noteq> dv1 then False
                else let resto2 = soma_pesos numeros 11 10 0 0 mod 11;
                         dv2 = (if resto2 < 2 then 0 else 11 - resto2)
                     in numeros ! 10 = dv2)"

subsection \<open>The validation rule as the specification words it\<close>

definition check_digit :: "nat \<Rightarrow> nat" where
  "check_digit s = (if s mod 11 < 2 then 0 else 11 - s mod 11)"

definition weighted_sum :: "nat list \<Rightarrow> nat list \<Rightarrow> nat" where
  "weighted_sum ds ws = sum_list (map2 (*) ds ws)"

definition cpf_spec :: "string \<Rightarrow> bool" where
  "cpf_spec s =
     (let stripped = filter is_digit s; d = map digit_val stripped in
        length stripped = 11 \<and>
        \<not> (\<exists>c. stripped = replicate 11 c) \<and>
        d ! 9 = check_digit (weighted_sum (take 9 d) [10, 9, 8, 7, 6, 5, 4, 3, 2]) \<and>
        d ! 10 = check_digit (weighted_sum (take 10 d) [11, 10, 9, 8, 7, 6, 5, 4, 3, 2]))"

section \<open>JavaScript values and HTTP responses\<close>

text \<open>
  The values a handler reads from a request or from the store. Numbers are the integers
  and \<open>NaN\<close>; objects and rows are association lists from property names to values.
\<close>

datatype jsval =
    JUndefined
  | JNull
  | JBool bool
  | JNum int
  | JNaN
  | JStr string
  | JArr "jsval list"
  | JObj "(string \<times> jsval) list"

type_synonym objeto = "(string \<times> jsval) list"

text \<open>Truthiness, as \<^verbatim>\<open>if (v)\<close>, \<^verbatim>\<open>!v\<close> and \<^verbatim>\<open>a || b\<close> test it.\<close>

fun truthy :: "jsval \<Rightarrow> bool" where
  "truthy JUndefined = False"
| "truthy JNull = False"
| "truthy (JBool b) = b"
| "truthy (JNum n) = (n \<noteq> 0)"
| "truthy JNaN = False"
| "truthy (JStr s) = (s \<noteq> [])"
| "truthy (JArr xs) = True"
| "truthy (JObj kvs) = True"

definition js_or :: "jsval \<Rightarrow> jsval \<Rightarrow> jsval" where
  "js_or a b = (if truthy a then a else b)"

text \<open>Reading a property: \<^verbatim>\<open>o.k\<close> is \<^verbatim>\<open>undefined\<close> when the object has no such property.\<close>

definition campo :: "objeto \<Rightarrow> string \<Rightarrow> jsval" where
  "campo obj k = (case map_of obj k of None \<Rightarrow> JUndefined | Some v \<Rightarrow> v)"

text \<open>
  The JSON envelope of \<^verbatim>\<open>respostaSucesso\<close> and \<^verbatim>\<open>respostaErro\<close> (server.js) and of the
  responses of the authentication middleware: a status code and a body with
  \<^verbatim>\<open>message\<close> and the optional \<^verbatim>\<open>error\<close> and \<^verbatim>\<open>data\<close>.
\<close>

record resposta =
  statusCode :: nat
  message :: string
  error :: "string option"
  dados :: "jsval option"

definition respostaSucesso :: "nat \<Rightarrow> string \<Rightarrow> jsval \<Rightarrow> resposta" where
  "respostaSucesso code mensagem d =
     \<lparr>statusCode = code, message = mensagem, error = None,
      dados = (if truthy d then Some d else None)\<rparr>"

definition respostaErro :: "nat \<Rightarrow> string \<Rightarrow> string option \<Rightarrow> resposta" where
  "respostaErro code mensagem erro =
     \<lparr>statusCode = code, message = mensagem,
      error = (case erro of None \<Rightarrow> None | Some e \<Rightarrow> if e = [] then None else Some e),
      dados = None\<rparr>"

text \<open>A thrown \<^verbatim>\<open>Error\<close>: its \<^verbatim>\<open>name\<close> and its \<^verbatim>\<open>message\<close>.\<close>

datatype excecao = Excecao (nome: string) (mensagem: string)

section \<open>auth/jwt.js\<close>

record config =
  env_JWT_SECRET :: "string option"
  env_JWT_REFRESH_SECRET :: "string option"

text \<open>\<^verbatim>\<open>process.env.X || fallback\<close>: an unset or empty variable gives the fallback.\<close>

definition env_or :: "string option \<Rightarrow> string \<Rightarrow> string" where
  "env_or v fallback = (case v of None \<Rightarrow> fallback | Some s \<Rightarrow> if s = [] then fallback else s)"

definition JWT_SECRET :: "config \<Rightarrow> string" where
  "JWT_SECRET cfg = env_or (env_JWT_SECRET cfg) ''sua_chave_secreta_super_segura_aqui''"

definition JWT_REFRESH_SECRET :: "config \<Rightarrow> string" where
  "JWT_REFRESH_SECRET cfg = env_or (env_JWT_REFRESH_SECRET cfg) ''sua_chave_refresh_super_segura_aqui''"

text \<open>
  \<^verbatim>\<open>jwt.sign(payload, secret, {expiresIn, issuer, audience})\<close> is kept symbolic: a token is
  the payload object handed to \<^verbatim>\<open>jwt.sign\<close>, the secret and the signing options.
\<close>

datatype token = Token (carga: objeto) (segredo: string) (expiresIn: string) (issuer: string) (audience: string)

definition gerarAccessToken :: "config \<Rightarrow> objeto \<Rightarrow> token" where
  "gerarAccessToken cfg payload =
     Token payload (JWT_SECRET cfg) ''15m'' ''biblioteca-api'' ''biblioteca-frontend''"

definition gerarRefreshToken :: "config \<Rightarrow> objeto \<Rightarrow> token" where
  "gerarRefreshToken cfg payload =
     Token payload (JWT_REFRESH_SECRET cfg) ''7d'' ''biblioteca-api'' ''biblioteca-frontend''"

record par_tokens =
  accessToken :: token
  refreshToken :: token

definition gerarParTokens :: "config \<Rightarrow> objeto \<Rightarrow> par_tokens" where
  "gerarParTokens cfg usuario =
     (let payload = [(''id'', campo usuario ''id''),
                     (''email'', campo usuario ''email''),
                     (''role'', js_or (campo usuario ''role'') (JStr ''user''))]
      in \<lparr>accessToken = gerarAccessToken cfg payload,
          refreshToken = gerarRefreshToken cfg
            [(''id'', campo usuario ''id''), (''email'', campo usuario ''email'')]\<rparr>)"

text \<open>
  \<^verbatim>\<open>extrairTokenDoHeader\<close>: the header is absent (\<open>None\<close>) or a string; the empty string is
  falsy; \<^verbatim>\<open>substring(7)\<close> drops the seven characters of \<^verbatim>\<open>'Bearer '\<close>.
\<close>

definition extrairTokenDoHeader :: "string option \<Rightarrow> string option" where
  "extrairTokenDoHeader authHeader =
     (case authHeader of
        None \<Rightarrow> None
      | Some h \<Rightarrow> if h = [] \<or> \<not> prefix ''Bearer '' h then None else Some (drop 7 h))"

definition Token_expirado :: string where
  "Token_expirado = ''Token expirado''"

definition Token_invalido :: string where
  "Token_invalido = ''Token inv'' @ [CHR 0xE1] @ ''lido''"

text \<open>
  \<^verbatim>\<open>verificarAccessToken\<close>. The argument \<open>jwt_verify\<close> stands for
  \<^verbatim>\<open>jwt.verify(token, JWT_SECRET, {issuer, audience})\<close> of the jsonwebtoken library: it returns
  the decoded payload or throws.
\<close>

definition verificarAccessToken :: "(string \<Rightarrow> excecao + objeto) \<Rightarrow> string \<Rightarrow> excecao + objeto" where
  "verificarAccessToken jwt_verify tok =
     (case jwt_verify tok of
        Inr payload \<Rightarrow> Inr payload
      | Inl e \<Rightarrow>
          if nome e = ''TokenExpiredError'' then Inl (Excecao ''Error'' Token_expirado)
          else if nome e = ''JsonWebTokenError'' then Inl (Excecao ''Error'' Token_invalido)
          else Inl e)"

section \<open>auth/middleware.js\<close>

text \<open>A middleware either answers the request or calls \<^verbatim>\<open>next()\<close> with \<^verbatim>\<open>req.usuario\<close> set.\<close>

datatype passo = Responde resposta | Segue objeto

definition autenticarToken :: "(string \<Rightarrow> excecao + objeto) \<Rightarrow> string option \<Rightarrow> passo" where
  "autenticarToken jwt_verify authHeader =
     (case extrairTokenDoHeader authHeader of
        None \<Rightarrow>
          Responde \<lparr>statusCode = 401,
            message = ''Acesso negado. Token n'' @ [CHR 0xE3] @ ''o fornecido.'',
            error = Some ''NO_TOKEN'', dados = None\<rparr>
      | Some tok \<Rightarrow>
          if tok = [] then
            Responde \<lparr>statusCode = 401,
              message = ''Acesso negado. Token n'' @ [CHR 0xE3] @ ''o fornecido.'',
              error = Some ''NO_TOKEN'', dados = None\<rparr>
          else
            (case verificarAccessToken jwt_verify tok of
               Inr payload \<Rightarrow>
                 Segue [(''id'', campo payload ''id''), (''email'', campo payload ''email''),
                        (''role'', campo payload ''role'')]
             | Inl e \<Rightarrow>
                 if mensagem e = Token_expirado then
                   Responde \<lparr>statusCode = 401,
                     message = ''Token expirado. Fa'' @ [CHR 0xE7] @ ''a login novamente.'',
                     error = Some ''TOKEN_EXPIRED'', dados = None\<rparr>
                 else if mensagem e = Token_invalido then
                   Responde \<lparr>statusCode = 403,
                     message = ''Token inv'' @ [CHR 0xE1] @ ''lido.'',
                     error = Some ''INVALID_TOKEN'', dados = None\<rparr>
                 else
                   Responde \<lparr>statusCode = 500,
                     message = ''Erro ao verificar token.'',
                     error = Some (mensagem e), dados = None\<rparr>))"

section \<open>The calendar of the JavaScript \<^verbatim>\<open>Date\<close> object\<close>

text \<open>
  \<^verbatim>\<open>new Date(year, month, date)\<close> followed by \<^verbatim>\<open>getFullYear()\<close>, \<^verbatim>\<open>getMonth()\<close> and
  \<^verbatim>\<open>getDate()\<close>, after the ECMAScript definitions of \<open>DaysInYear\<close>, \<open>DayFromYear\<close>,
  \<open>YearFromTime\<close>, \<open>MonthFromTime\<close>, \<open>DateFromTime\<close> and \<open>MakeDay\<close>, counted in whole days
  (the time of day is midnight throughout). The local time zone is taken to have a
  constant offset, so that the local day read back is the local day constructed.
\<close>

definition DaysInYear :: "int \<Rightarrow> int" where
  "DaysInYear y =
     (if y mod 4 \<noteq> 0 then 365
      else if y mod 100 \<noteq> 0 then 366
      else if y mod 400 \<noteq> 0 then 365
      else 366)"

definition DayFromYear :: "int \<Rightarrow> int" where
  "DayFromYear y =
     365 * (y - 1970) + (y - 1969) div 4 - (y - 1901) div 100 + (y - 1601) div 400"

definition InLeapYear :: "int \<Rightarrow> int" where
  "InLeapYear y = (if DaysInYear y = 366 then 1 else 0)"

text \<open>
  \<open>YearFromTime\<close> is the largest year whose first day is not after the given day: a search
  upwards from a year that is not after it. The fuel is the number of years the search may
  still advance; \<open>YearFromDay\<close> gives it more than the distance it has to cover.
\<close>

fun year_search :: "nat \<Rightarrow> int \<Rightarrow> int \<Rightarrow> int" where
  "year_search 0 d y = y"
| "year_search (Suc fuel) d y =
     (if DayFromYear (y + 1) \<le> d then year_search fuel d (y + 1) else y)"

definition YearFromDay :: "int \<Rightarrow> int" where
  "YearFromDay d =
     (let y0 = 1970 + (if 0 \<le> d then d div 366 else d div 365)
      in year_search (nat (\<bar>d\<bar> div 365 - \<bar>d\<bar> div 366) + 2) d y0)"

definition DayWithinYear :: "int \<Rightarrow> int" where
  "DayWithinYear d = d - DayFromYear (YearFromDay d)"

definition MonthFromDay :: "int \<Rightarrow> int" where
  "MonthFromDay d =
     (let w = DayWithinYear d; l = InLeapYear (YearFromDay d) in
      if w < 31 then 0
      else if w < 59 + l then 1
      else if w < 90 + l then 2
      else if w < 120 + l then 3
      else if w < 151 + l then 4
      else if w < 181 + l then 5
      else if w < 212 + l then 6
      else if w < 243 + l then 7
      else if w < 273 + l then 8
      else if w < 304 + l then 9
      else if w < 334 + l then 10
      else 11)"

definition DateFromDay :: "int \<Rightarrow> int" where
  "DateFromDay d =
     (let w = DayWithinYear d; l = InLeapYear (YearFromDay d); m = MonthFromDay d in
      if m = 0 then w + 1
      else if m = 1 then w - 30
      else if m = 2 then w - 58 - l
      else if m = 3 then w - 89 - l
      else if m = 4 then w - 119 - l
      else if m = 5 then w - 150 - l
      else if m = 6 then w - 180 - l
      else if m = 7 then w - 211 - l
      else if m = 8 then w - 242 - l
      else if m = 9 then w - 272 - l
      else if m = 10 then w - 303 - l
      else w - 333 - l)"

text \<open>The number of days of a year that come before its month \<open>m\<close> (0 is January).\<close>

definition dias_antes_do_mes :: "int \<Rightarrow> int \<Rightarrow> int" where
  "dias_antes_do_mes y m =
     (let l = InLeapYear y in
      if m = 0 then 0
      else if m = 1 then 31
      else if m = 2 then 59 + l
      else if m = 3 then 90 + l
      else if m = 4 then 120 + l
      else if m = 5 then 151 + l
      else if m = 6 then 181 + l
      else if m = 7 then 212 + l
      else if m = 8 then 243 + l
      else if m = 9 then 273 + l
      else if m = 10 then 304 + l
      else 334 + l)"

definition MakeDay :: "int \<Rightarrow> int \<Rightarrow> int \<Rightarrow> int" where
  "MakeDay year month date =
     (let ym = year + month div 12; mn = month mod 12
      in DayFromYear ym + dias_antes_do_mes ym mn + date - 1)"

text \<open>
  The constructor \<^verbatim>\<open>new Date(year, month, date)\<close>: a year from 0 to 99 stands for the year
  1900 + year. The value of the object is the day number.
\<close>

definition new_Date :: "int \<Rightarrow> int \<Rightarrow> int \<Rightarrow> int" where
  "new_Date year month date =
     (let yr = (if 0 \<le> year \<and> year \<le> 99 then 1900 + year else year)
      in MakeDay yr month date)"

definition getFullYear :: "int \<Rightarrow> int" where
  "getFullYear t = YearFromDay t"

definition getMonth :: "int \<Rightarrow> int" where
  "getMonth t = MonthFromDay t"

definition getDate :: "int \<Rightarrow> int" where
  "getDate t = DateFromDay t"

section \<open>validators.js: validarData\<close>

text \<open>
  \<^verbatim>\<open>/^(0[1-9]|[12][0-9]|3[01])\/(0[1-9]|1[0-2])\/(\d{4})$/\<close>: ten characters, two digits of
  the day, a slash, two digits of the month, a slash, four digits of the year.
\<close>

definition regex_data :: "string \<Rightarrow> bool" where
  "regex_data s =
     (case s of
        [d1, d2, b1, m1, m2, b2, y1, y2, y3, y4] \<Rightarrow>
          ((d1 = CHR ''0'' \<and> is_digit d2 \<and> d2 \<noteq> CHR ''0'')
             \<or> ((d1 = CHR ''1'' \<or> d1 = CHR ''2'') \<and> is_digit d2)
             \<or> (d1 = CHR ''3'' \<and> (d2 = CHR ''0'' \<or> d2 = CHR ''1'')))
          \<and> b1 = CHR ''/''
          \<and> ((m1 = CHR ''0'' \<and> is_digit m2 \<and> m2 \<noteq> CHR ''0'')
             \<or> (m1 = CHR ''1'' \<and> (m2 = CHR ''0'' \<or> m2 = CHR ''1'' \<or> m2 = CHR ''2'')))
          \<and> b2 = CHR ''/''
          \<and> is_digit y1 \<and> is_digit y2 \<and> is_digit y3 \<and> is_digit y4
      | _ \<Rightarrow> False)"

text \<open>\<^verbatim>\<open>Number\<close> on a string of decimal digits.\<close>

definition numero :: "string \<Rightarrow> int" where
  "numero ds = foldl (\<lambda>n c. 10 * n + int (digit_val c)) 0 ds"

text \<open>The parts of \<^verbatim>\<open>data.split('/')\<close> for a string the pattern accepts.\<close>

definition parte_dia :: "string \<Rightarrow> string" where
  "parte_dia s = take 2 s"

definition parte_mes :: "string \<Rightarrow> string" where
  "parte_mes s = take 2 (drop 3 s)"

definition parte_ano :: "string \<Rightarrow> string" where
  "parte_ano s = drop 6 s"

definition validarData :: "string \<Rightarrow> bool" where
  "validarData dt =
     (if dt = [] then False
      else if \<not> regex_data dt then False
      else let dia = numero (parte_dia dt); mes = numero (parte_mes dt);
               ano = numero (parte_ano dt);
               date = new_Date ano (mes - 1) dia
           in getFullYear date = ano \<and> getMonth date = mes - 1 \<and> getDate date = dia)"

text \<open>
  The calendar the dates are checked against: the number of days of the month \<open>m\<close> (1 is
  January) of the year \<open>y\<close>.
\<close>

definition dias_no_mes :: "int \<Rightarrow> int \<Rightarrow> int" where
  "dias_no_mes y m =
     (if m = 2 then 28 + InLeapYear y
      else if m = 4 \<or> m = 6 \<or> m = 9 \<or> m = 11 then 30
      else 31)"

section \<open>Numeric strings\<close>

text \<open>
  \<^verbatim>\<open>isNaN(s)\<close> on a string: \<^verbatim>\<open>Number(s)\<close> is a number exactly when \<open>s\<close>, with the white space
  around it removed, is empty or a numeric literal of the ECMAScript string grammar: a
  signed decimal literal (digits with an optional fraction and exponent, or
  \<^verbatim>\<open>Infinity\<close>) or an unsigned hexadecimal, octal or binary literal.
\<close>

definition is_space :: "char \<Rightarrow> bool" where
  "is_space c = ((of_char c :: nat) \<in> {9, 10, 11, 12, 13, 32, 160})"

definition js_trim :: "string \<Rightarrow> string" where
  "js_trim s = rev (dropWhile is_space (rev (dropWhile is_space s)))"

definition is_hex :: "char \<Rightarrow> bool" where
  "is_hex c = (is_digit c \<or> (of_char c :: nat) \<in> {65..70} \<or> (of_char c :: nat) \<in> {97..102})"

definition is_octal :: "char \<Rightarrow> bool" where
  "is_octal c = (48 \<le> (of_char c :: nat) \<and> (of_char c :: nat) \<le> 55)"

definition is_binary :: "char \<Rightarrow> bool" where
  "is_binary c = (c = CHR ''0'' \<or> c = CHR ''1'')"

definition expoente_opcional :: "string \<Rightarrow> bool" where
  "expoente_opcional r =
     (case r of
        [] \<Rightarrow> True
      | c # r1 \<Rightarrow>
          (c = CHR ''e'' \<or> c = CHR ''E'') \<and>
          (let r2 = (case r1 of
                       [] \<Rightarrow> []
                     | s # t \<Rightarrow> if s = CHR ''+'' \<or> s = CHR ''-'' then t else r1)
           in r2 \<noteq> [] \<and> list_all is_digit r2))"

definition decimal_sem_sinal :: "string \<Rightarrow> bool" where
  "decimal_sem_sinal s =
     (s = ''Infinity'' \<or>
      (let ip = takeWhile is_digit s; r = dropWhile is_digit s in
       case r of
         [] \<Rightarrow> ip \<noteq> []
       | c # r1 \<Rightarrow>
           if c = CHR ''.'' then
             (ip \<noteq> [] \<or> takeWhile is_digit r1 \<noteq> []) \<and> expoente_opcional (dropWhile is_digit r1)
           else ip \<noteq> [] \<and> expoente_opcional r))"

definition literal_decimal :: "string \<Rightarrow> bool" where
  "literal_decimal s =
     (case s of
        [] \<Rightarrow> False
      | c # t \<Rightarrow> if c = CHR ''+'' \<or> c = CHR ''-'' then decimal_sem_sinal t else decimal_sem_sinal s)"

definition literal_nao_decimal :: "string \<Rightarrow> bool" where
  "literal_nao_decimal s =
     (case s of
        a # b # t \<Rightarrow>
          a = CHR ''0'' \<and> t \<noteq> [] \<and>
          (((b = CHR ''x'' \<or> b = CHR ''X'') \<and> list_all is_hex t)
           \<or> ((b = CHR ''o'' \<or> b = CHR ''O'') \<and> list_all is_octal t)
           \<or> ((b = CHR ''b'' \<or> b = CHR ''B'') \<and> list_all is_binary t))
      | _ \<Rightarrow> False)"

definition isNaN :: "string \<Rightarrow> bool" where
  "isNaN s = (let t = js_trim s in \<not> (t = [] \<or> literal_nao_decimal t \<or> literal_decimal t))"

section \<open>The Supabase client\<close>

text \<open>
  A query answers with \<^verbatim>\<open>{ data, error }\<close>: \<open>rdata\<close> is \<^verbatim>\<open>null\<close> (\<open>None\<close>) or the rows,
  \<open>rerror\<close> is \<^verbatim>\<open>null\<close> or the message of the error object.
\<close>

datatype 'a retorno = Retorno (rdata: "'a option") (rerror: "string option")

definition PGRST116 :: string where
  "PGRST116 = ''JSON object requested, multiple (or no) rows returned''"

text \<open>
  The modifiers \<^verbatim>\<open>.single()\<close> and \<^verbatim>\<open>.maybeSingle()\<close> of the client: one row is handed over
  as an object; several rows are an error; no row is an error for \<^verbatim>\<open>single\<close> and a
  \<^verbatim>\<open>null\<close> without error for \<^verbatim>\<open>maybeSingle\<close>.
\<close>

fun pg_single :: "objeto list retorno \<Rightarrow> objeto retorno" where
  "pg_single (Retorno d (Some e)) = Retorno None (Some e)"
| "pg_single (Retorno None None) = Retorno None (Some PGRST116)"
| "pg_single (Retorno (Some []) None) = Retorno None (Some PGRST116)"
| "pg_single (Retorno (Some [x]) None) = Retorno (Some x) None"
| "pg_single (Retorno (Some (x # y # zs)) None) = Retorno None (Some PGRST116)"

fun pg_maybeSingle :: "objeto list retorno \<Rightarrow> objeto retorno" where
  "pg_maybeSingle (Retorno d (Some e)) = Retorno None (Some e)"
| "pg_maybeSingle (Retorno None None) = Retorno None None"
| "pg_maybeSingle (Retorno (Some []) None) = Retorno None None"
| "pg_maybeSingle (Retorno (Some [x]) None) = Retorno (Some x) None"
| "pg_maybeSingle (Retorno (Some (x # y # zs)) None) = Retorno None (Some PGRST116)"

text \<open>
  What the hosted store answers to the queries the handlers below send. Each field is one
  query shape of server.js, as a function of the values the handler puts into it.
\<close>

record loja =
  cliente_por_id :: "string \<Rightarrow> objeto list retorno"
  cliente_delete :: "string \<Rightarrow> objeto list retorno"
  cliente_por_cpf :: "string \<Rightarrow> objeto list retorno"
  livro_por_id :: "jsval \<Rightarrow> objeto list retorno"
  livro_ilike_nome :: "string \<Rightarrow> objeto list retorno"
  reservas_insert :: "objeto \<Rightarrow> objeto list retorno"
  multa_update :: "objeto \<Rightarrow> string \<Rightarrow> string \<Rightarrow> objeto list retorno"
  multa_select :: "objeto list retorno"
  reservas_in :: "jsval list \<Rightarrow> objeto list retorno"
  cliente_in :: "jsval list \<Rightarrow> objeto list retorno"
  livro_in :: "jsval list \<Rightarrow> objeto list retorno"
  reservas_por_cliente :: "jsval \<Rightarrow> objeto list retorno"

text \<open>
  \<^verbatim>\<open>const supabase = supabaseConfigurado ? createClient(...) : null\<close>: without the two
  environment variables the client is \<^verbatim>\<open>null\<close>, and \<^verbatim>\<open>supabase.from(...)\<close> throws this
  \<^verbatim>\<open>TypeError\<close>.
\<close>

definition erro_supabase_nulo :: string where
  "erro_supabase_nulo = ''Cannot read properties of null (reading '' @ [CHR 0x27] @ ''from'' @ [CHR 0x27] @ '')''"

text \<open>A request: the Authorization header, the \<^verbatim>\<open>:id\<close> of the path, the query and the body.\<close>

record requisicao =
  authorization :: "string option"
  params_id :: string
  query :: objeto
  body :: objeto

section \<open>server.js: helpers\<close>

definition validarData_js :: "jsval \<Rightarrow> bool" where
  "validarData_js v = (case v of JStr s \<Rightarrow> validarData s | _ \<Rightarrow> False)"

text \<open>The \<^verbatim>\<open>formatarData\<close> of server.js: it throws on a date \<open>validarData\<close> rejects.\<close>

definition formatarData :: "string \<Rightarrow> excecao + string" where
  "formatarData dt =
     (if \<not> validarData dt then
        Inl (Excecao ''Error'' (''Formato de data inv'' @ [CHR 0xE1] @ ''lido: '' @ dt))
      else Inr (parte_ano dt @ ''-'' @ parte_mes dt @ ''-'' @ parte_dia dt))"

section \<open>server.js: DELETE /cliente/:id\<close>

text \<open>
  The route is registered as \<^verbatim>\<open>app.delete('/cliente/:id', async (req, res) => ...)\<close>: the
  handler is the only function of the route, and it reads \<^verbatim>\<open>req.params.id\<close> alone.
\<close>

definition delete_cliente :: "loja option \<Rightarrow> requisicao \<Rightarrow> resposta" where
  "delete_cliente supabase req =
     (let ident = params_id req in
      if ident = [] \<or> isNaN ident then
        respostaErro 400 (''ID de cliente inv'' @ [CHR 0xE1] @ ''lido'') None
      else
        case supabase of
          None \<Rightarrow> respostaErro 500 ''Erro ao deletar cliente'' (Some erro_supabase_nulo)
        | Some db \<Rightarrow>
            (case pg_single (cliente_por_id db ident) of
               Retorno clienteExiste verificarError \<Rightarrow>
                 if verificarError \<noteq> None \<or> clienteExiste = None then
                   respostaErro 404 (''Cliente n'' @ [CHR 0xE3] @ ''o encontrado'') None
                 else
                   (case rerror (cliente_delete db ident) of
                      Some e \<Rightarrow> respostaErro 500 ''Erro ao deletar cliente'' (Some e)
                    | None \<Rightarrow>
                        respostaSucesso 200 ''Cliente deletado com sucesso''
                          (JObj [(''clienteID'', JStr ident)]))))"

section \<open>server.js: PATCH /multas/:id/pagar\<close>

definition isSchemaColumnError :: "string option \<Rightarrow> bool" where
  "isSchemaColumnError e =
     (let msg = (case e of None \<Rightarrow> [] | Some m \<Rightarrow> m) in
      sublist ''Could not find'' msg \<or> sublist ''schema cache'' msg \<or> sublist ''does not exist'' msg)"

definition keysParaTentar :: "string list" where
  "keysParaTentar = [''MultaID'', ''multa_id'', ''id'', ''ID'']"

definition updatesParaTentar :: "string \<Rightarrow> objeto list" where
  "updatesParaTentar dataBase =
     [[(''DataPagamento'', JStr dataBase), (''Status'', JStr ''paga'')],
      [(''data_pagamento'', JStr dataBase), (''status'', JStr ''paga'')]]"

text \<open>
  The inner loop \<^verbatim>\<open>for (const key of keysParaTentar)\<close>: \<open>Inl\<close> is a \<^verbatim>\<open>return\<close> out of the
  handler, \<open>Inr\<close> the value of \<^verbatim>\<open>ultimoErro\<close> when the loop runs to its end.
\<close>

fun tentar_chaves :: "loja \<Rightarrow> objeto \<Rightarrow> string \<Rightarrow> string list \<Rightarrow> string option \<Rightarrow> resposta + string option" where
  "tentar_chaves db updatePayload ident [] ultimoErro = Inr ultimoErro"
| "tentar_chaves db updatePayload ident (key # keys) ultimoErro =
     (case multa_update db updatePayload key ident of
        Retorno d None \<Rightarrow>
          (case d of
             None \<Rightarrow> tentar_chaves db updatePayload ident keys ultimoErro
           | Some [] \<Rightarrow> tentar_chaves db updatePayload ident keys ultimoErro
           | Some (linha # outras) \<Rightarrow>
               Inl (respostaSucesso 200 ''Multa marcada como paga'' (JObj linha)))
      | Retorno d (Some e) \<Rightarrow>
          if isSchemaColumnError (Some e) then tentar_chaves db updatePayload ident keys (Some e)
          else Inl (respostaErro 500 ''Erro ao marcar multa como paga'' (Some e)))"

text \<open>The outer loop \<^verbatim>\<open>for (const updatePayload of updatesParaTentar)\<close>.\<close>

fun tentar_updates :: "loja \<Rightarrow> string \<Rightarrow> objeto list \<Rightarrow> string option \<Rightarrow> resposta + string option" where
  "tentar_updates db ident [] ultimoErro = Inr ultimoErro"
| "tentar_updates db ident (updatePayload # updates) ultimoErro =
     (case tentar_chaves db updatePayload ident keysParaTentar ultimoErro of
        Inl r \<Rightarrow> Inl r
      | Inr ultimo \<Rightarrow> tentar_updates db ident updates ultimo)"

definition patch_multa_pagar :: "loja option \<Rightarrow> requisicao \<Rightarrow> resposta" where
  "patch_multa_pagar supabase req =
     (let ident = params_id req; DataPagamento = campo (body req) ''DataPagamento'' in
      if ident = [] \<or> isNaN ident then
        respostaErro 400 (''ID de multa inv'' @ [CHR 0xE1] @ ''lido'') None
      else if \<not> truthy DataPagamento \<or> \<not> validarData_js DataPagamento then
        respostaErro 400 (''Data de pagamento inv'' @ [CHR 0xE1] @ ''lida'') None
      else
        case DataPagamento of
          JStr dp \<Rightarrow>
            (case formatarData dp of
               Inl e \<Rightarrow> respostaErro 500 ''Erro ao processar pagamento'' (Some (mensagem e))
             | Inr dataBase \<Rightarrow>
                 (case supabase of
                    None \<Rightarrow> respostaErro 500 ''Erro ao processar pagamento'' (Some erro_supabase_nulo)
                  | Some db \<Rightarrow>
                      (case tentar_updates db ident (updatesParaTentar dataBase) None of
                         Inl r \<Rightarrow> r
                       | Inr (Some e) \<Rightarrow>
                           respostaErro 500 ''Erro ao marcar multa como paga'' (Some e)
                       | Inr None \<Rightarrow>
                           respostaErro 404 (''Multa n'' @ [CHR 0xE3] @ ''o encontrada'') None)))
        | _ \<Rightarrow> respostaErro 400 (''Data de pagamento inv'' @ [CHR 0xE1] @ ''lida'') None)"

subsection \<open>Vocabulary for the statements about PATCH /multas/:id/pagar\<close>

text \<open>
  The combinations the two loops go through, in their order: the payload of the outer loop
  with each key of the inner loop.
\<close>

definition tentativas :: "string \<Rightarrow> (objeto \<times> string) list" where
  "tentativas dataBase = List.product (updatesParaTentar dataBase) keysParaTentar"

text \<open>
  An answer after which the loops go on to the next combination: no error and no row, or
  an error that \<open>isSchemaColumnError\<close> recognises.
\<close>

definition sem_efeito :: "objeto list retorno \<Rightarrow> bool" where
  "sem_efeito r =
     (case rerror r of
        None \<Rightarrow> rdata r = None \<or> rdata r = Some []
      | Some e \<Rightarrow> isSchemaColumnError (Some e))"

text \<open>A store that answers every query with no row and no error.\<close>

definition loja_vazia :: loja where
  "loja_vazia =
     \<lparr>cliente_por_id = (\<lambda>i. Retorno (Some []) None),
      cliente_delete = (\<lambda>i. Retorno (Some []) None),
      cliente_por_cpf = (\<lambda>c. Retorno (Some []) None),
      livro_por_id = (\<lambda>i. Retorno (Some []) None),
      livro_ilike_nome = (\<lambda>n. Retorno (Some []) None),
      reservas_insert = (\<lambda>r. Retorno (Some []) None),
      multa_update = (\<lambda>p k i. Retorno (Some []) None),
      multa_select = Retorno (Some []) None,
      reservas_in = (\<lambda>ids. Retorno (Some []) None),
      cliente_in = (\<lambda>ids. Retorno (Some []) None),
      livro_in = (\<lambda>ids. Retorno (Some []) None),
      reservas_por_cliente = (\<lambda>c. Retorno (Some []) None)\<rparr>"

text \<open>The answer of the store to the combination at position \<open>i\<close>.\<close>

definition resposta_tentativa :: "loja \<Rightarrow> string \<Rightarrow> string \<Rightarrow> nat \<Rightarrow> objeto list retorno" where
  "resposta_tentativa db ident dataBase i =
     (case tentativas dataBase ! i of (p, k) \<Rightarrow> multa_update db p k ident)"

text \<open>
  An example deployment of the fine table with the snake-case columns only: a payload with
  \<^verbatim>\<open>DataPagamento\<close> and a filter on \<^verbatim>\<open>MultaID\<close> are answered with schema errors, and the
  fine 7 is found under \<^verbatim>\<open>multa_id\<close>.
\<close>

definition exemplo_loja_multa :: loja where
  "exemplo_loja_multa =
     loja_vazia\<lparr>multa_update :=
       (\<lambda>p k i.
          if map fst p = [''DataPagamento'', ''Status''] then
            Retorno None (Some ''Could not find the DataPagamento column of multa in the schema cache'')
          else if k = ''MultaID'' then
            Retorno None (Some ''column multa.MultaID does not exist'')
          else if k = ''multa_id'' \<and> i = ''7'' then
            Retorno (Some [(''multa_id'', JNum 7) # p]) None
          else Retorno (Some []) None)\<rparr>"

text \<open>
  A deployment where the first combination is answered with a schema error and every
  other one with a refusal of the database.
\<close>

definition exemplo_loja_multa_negada :: loja where
  "exemplo_loja_multa_negada =
     loja_vazia\<lparr>multa_update :=
       (\<lambda>p k i.
          if map fst p = [''DataPagamento'', ''Status''] \<and> k = ''MultaID'' then
            Retorno None (Some ''column multa.MultaID does not exist'')
          else Retorno None (Some ''permission denied for table multa''))\<rparr>"

definition exemplo_req_pagar :: requisicao where
  "exemplo_req_pagar =
     \<lparr>authorization = None, params_id = ''7'', query = [],
      body = [(''DataPagamento'', JStr ''15/03/2024'')]\<rparr>"

text \<open>
  An example for DELETE /cliente/:id: a store that holds the client 1, a request without an
  Authorization header and one with a bearer token whose signature is not valid.
\<close>

definition exemplo_loja_cliente :: loja where
  "exemplo_loja_cliente =
     loja_vazia\<lparr>cliente_por_id :=
       (\<lambda>i. if i = ''1'' then Retorno (Some [[(''ClienteID'', JNum 1)]]) None
            else Retorno (Some []) None),
      cliente_delete :=
       (\<lambda>i. if i = ''1'' then Retorno (Some [[(''ClienteID'', JNum 1)]]) None
            else Retorno (Some []) None)\<rparr>"

definition exemplo_req_sem_token :: requisicao where
  "exemplo_req_sem_token = \<lparr>authorization = None, params_id = ''1'', query = [], body = []\<rparr>"

definition exemplo_req_token_invalido :: requisicao where
  "exemplo_req_token_invalido =
     \<lparr>authorization = Some ''Bearer abc.def.ghi'', params_id = ''1'', query = [], body = []\<rparr>"

text \<open>A verifier that rejects every token as \<^verbatim>\<open>jwt.verify\<close> rejects a bad signature.\<close>

definition exemplo_jwt_verify :: "string \<Rightarrow> excecao + objeto" where
  "exemplo_jwt_verify tok = Inl (Excecao ''JsonWebTokenError'' ''invalid signature'')"

section \<open>server.js: the fine query engine\<close>

text \<open>
  The conversions of JavaScript the engine relies on are parameters of the model, so that
  every statement below holds whatever they compute: \<^verbatim>\<open>String(v)\<close> on a value that is not
  a string; \<^verbatim>\<open>Number(a) === Number(b)\<close>, the same comparison as \<^verbatim>\<open>Set.prototype.has\<close>
  makes it, the sign of \<^verbatim>\<open>Number(a) - Number(b)\<close> (0 when that is \<^verbatim>\<open>NaN\<close>) and
  \<^verbatim>\<open>Number(v) > 0\<close>; \<^verbatim>\<open>Number(v)\<close> itself (\<open>None\<close> is \<^verbatim>\<open>NaN\<close>); \<^verbatim>\<open>parseInt(v)\<close>; \<^verbatim>\<open>a < b\<close> on values that are not both numbers;
  \<^verbatim>\<open>localeCompare\<close>; and the current day \<^verbatim>\<open>new Date().toISOString().split('T')[0]\<close>.
\<close>

record javascript =
  js_String :: "jsval \<Rightarrow> string"
  js_Number_igual :: "jsval \<Rightarrow> jsval \<Rightarrow> bool"
  js_Number_mesmo :: "jsval \<Rightarrow> jsval \<Rightarrow> bool"
  js_Number_menos :: "jsval \<Rightarrow> jsval \<Rightarrow> int"
  js_Number_positivo :: "jsval \<Rightarrow> bool"
  js_Number :: "jsval \<Rightarrow> int option"
  js_parseInt :: "jsval \<Rightarrow> jsval"
  js_menor :: "jsval \<Rightarrow> jsval \<Rightarrow> bool"
  js_localeCompare :: "string \<Rightarrow> string \<Rightarrow> int"
  js_hojeIso :: string

text \<open>\<^verbatim>\<open>String(v)\<close>: a string is returned as it is.\<close>

definition String_de :: "javascript \<Rightarrow> jsval \<Rightarrow> string" where
  "String_de js v = (case v of JStr s \<Rightarrow> s | _ \<Rightarrow> js_String js v)"

text \<open>\<^verbatim>\<open>toLowerCase()\<close> on the code units 0..255.\<close>

definition minuscula :: "char \<Rightarrow> char" where
  "minuscula c =
     (let n = (of_char c :: nat) in
      if (65 \<le> n \<and> n \<le> 90) \<or> (192 \<le> n \<and> n \<le> 222 \<and> n \<noteq> 215) then char_of (n + 32) else c)"

definition toLowerCase :: "string \<Rightarrow> string" where
  "toLowerCase s = map minuscula s"

definition nullish :: "jsval \<Rightarrow> bool" where
  "nullish v = (v = JUndefined \<or> v = JNull)"

text \<open>\<^verbatim>\<open>a ?? b ?? ... ?? null\<close> over the properties of a row.\<close>

fun primeiro_definido :: "objeto \<Rightarrow> string list \<Rightarrow> jsval" where
  "primeiro_definido multa [] = JNull"
| "primeiro_definido multa (k # ks) =
     (if nullish (campo multa k) then primeiro_definido multa ks else campo multa k)"

text \<open>Writing a property: the value of an existing property is replaced, a new one is added.\<close>

fun atribuir :: "string \<Rightarrow> jsval \<Rightarrow> objeto \<Rightarrow> objeto" where
  "atribuir k v [] = [(k, v)]"
| "atribuir k v ((k', v') # kvs) = (if k' = k then (k, v) # kvs else (k', v') # atribuir k v kvs)"

definition normalizarMulta :: "objeto \<Rightarrow> objeto" where
  "normalizarMulta multa =
     (let multaId = primeiro_definido multa [''MultaID'', ''multa_id'', ''id'', ''ID''];
          reservaId = primeiro_definido multa
            [''PendenciaID'', ''pendencia_id'', ''ReservaID'', ''reserva_id'', ''reservaId''];
          clienteId = primeiro_definido multa [''ClienteID'', ''cliente_id''];
          valor = primeiro_definido multa [''Valor'', ''valor''];
          dataVencimento = primeiro_definido multa
            [''DataVencimento'', ''data_vencimento'', ''DataEmissao'', ''data_multa'', ''data_emissao''];
          dataPagamento = primeiro_definido multa [''DataPagamento'', ''data_pagamento''];
          status = primeiro_definido multa [''Status'', ''status'']
      in atribuir ''Status'' status
          (atribuir ''DataPagamento'' dataPagamento
            (atribuir ''DataVencimento'' dataVencimento
              (atribuir ''Valor'' valor
                (atribuir ''ClienteID'' clienteId
                  (atribuir ''ReservaID'' reservaId
                    (atribuir ''MultaID'' multaId multa)))))))"

text \<open>\<^verbatim>\<open>[...new Set(xs)]\<close>: the first occurrence of each value, in order.\<close>

fun unicos :: "jsval list \<Rightarrow> jsval list" where
  "unicos [] = []"
| "unicos (x # xs) = x # filter (\<lambda>y. y \<noteq> x) (unicos xs)"

text \<open>\<^verbatim>\<open>new Map(rows.map((r) => [r[k], r]))\<close> followed by \<^verbatim>\<open>get(v)\<close>: the last row under the key.\<close>

definition mapa_get :: "string \<Rightarrow> objeto list \<Rightarrow> jsval \<Rightarrow> objeto option" where
  "mapa_get k rows v = (case filter (\<lambda>r. campo r k = v) rows of [] \<Rightarrow> None | r # rs \<Rightarrow> Some (last (r # rs)))"

text \<open>\<^verbatim>\<open>data || []\<close> for the rows of an answer.\<close>

definition linhas :: "objeto list retorno \<Rightarrow> objeto list" where
  "linhas r = (case rdata r of None \<Rightarrow> [] | Some rows \<Rightarrow> rows)"

text \<open>\<^verbatim>\<open>v ?? null\<close>.\<close>

definition ou_null :: "jsval \<Rightarrow> jsval" where
  "ou_null v = (if nullish v then JNull else v)"

text \<open>
  The function of the final \<^verbatim>\<open>map\<close> of \<^verbatim>\<open>enriquecerMultas\<close>: a fine whose reservation was
  found gets the property \<^verbatim>\<open>reserva\<close>; another fine is returned as it is.
\<close>

definition anexar_reserva :: "objeto list \<Rightarrow> objeto list \<Rightarrow> objeto list \<Rightarrow> objeto \<Rightarrow> objeto" where
  "anexar_reserva reservas clientes livros multa =
     (case mapa_get ''ReservaID'' reservas (campo multa ''ReservaID'') of
        None \<Rightarrow> multa
      | Some reserva \<Rightarrow>
          atribuir ''reserva''
            (JObj
              [(''ReservaID'', campo reserva ''ReservaID''),
               (''ClienteID'', campo reserva ''ClienteID''),
               (''DataRetirada'', ou_null (campo reserva ''DataRetirada'')),
               (''DataPrevistaEntrega'', ou_null (campo reserva ''DataPrevistaEntrega'')),
               (''cliente'',
                  case mapa_get ''ClienteID'' clientes (campo reserva ''ClienteID'') of
                    None \<Rightarrow> JNull
                  | Some cliente \<Rightarrow>
                      JObj [(''Nome'', campo cliente ''Nome''),
                            (''Sobrenome'', campo cliente ''Sobrenome'')]),
               (''livro'',
                  case mapa_get ''LivroID'' livros (campo reserva ''LivroID'') of
                    None \<Rightarrow> JNull
                  | Some livro \<Rightarrow> JObj [(''NomeLivro'', campo livro ''NomeLivro'')])])
            multa)"

text \<open>
  \<^verbatim>\<open>enriquecerMultas\<close>: \<open>Inl\<close> is the error it throws. The argument is the store client, which
  the caller has already used.
\<close>

definition enriquecerMultas :: "loja \<Rightarrow> objeto list \<Rightarrow> string + objeto list" where
  "enriquecerMultas db multasBase =
     (if multasBase = [] then Inr []
      else
        let reservaIds = unicos (filter truthy (map (\<lambda>m. campo m ''ReservaID'') multasBase)) in
        if reservaIds = [] then Inr multasBase
        else
          case rerror (reservas_in db reservaIds) of
            Some e \<Rightarrow> Inl e
          | None \<Rightarrow>
              let reservas = linhas (reservas_in db reservaIds);
                  clienteIds = unicos (filter truthy (map (\<lambda>r. campo r ''ClienteID'') reservas));
                  livroIds = unicos (filter truthy (map (\<lambda>r. campo r ''LivroID'') reservas));
                  respClientes = (if clienteIds \<noteq> [] then cliente_in db clienteIds
                                  else Retorno (Some []) None)
              in case rerror respClientes of
                   Some e \<Rightarrow> Inl e
                 | None \<Rightarrow>
                     let respLivros = (if livroIds \<noteq> [] then livro_in db livroIds
                                       else Retorno (Some []) None)
                     in case rerror respLivros of
                          Some e \<Rightarrow> Inl e
                        | None \<Rightarrow>
                            Inr (map (anexar_reserva reservas (linhas respClientes) (linhas respLivros))
                                   multasBase))"

text \<open>\<^verbatim>\<open>obterReservaIdsPorCliente\<close>: \<open>Inl\<close> is the error it throws.\<close>

definition obterReservaIdsPorCliente :: "loja \<Rightarrow> jsval \<Rightarrow> string + jsval list" where
  "obterReservaIdsPorCliente db clienteId =
     (case rerror (reservas_por_cliente db clienteId) of
        Some e \<Rightarrow> Inl e
      | None \<Rightarrow>
          Inr (filter truthy (map (\<lambda>r. campo r ''ReservaID'') (linhas (reservas_por_cliente db clienteId)))))"

text \<open>
  \<^verbatim>\<open>Array.prototype.sort\<close> with a comparator, as a stable insertion: an element goes before
  the first element of the sorted rest that does not come before it.
\<close>

fun inserir :: "('a \<Rightarrow> 'a \<Rightarrow> int) \<Rightarrow> 'a \<Rightarrow> 'a list \<Rightarrow> 'a list" where
  "inserir cmp x [] = [x]"
| "inserir cmp x (y # ys) = (if cmp x y \<le> 0 then x # y # ys else y # inserir cmp x ys)"

fun ordenar :: "('a \<Rightarrow> 'a \<Rightarrow> int) \<Rightarrow> 'a list \<Rightarrow> 'a list" where
  "ordenar cmp [] = []"
| "ordenar cmp (x # xs) = inserir cmp x (ordenar cmp xs)"

text \<open>The comparator of \<^verbatim>\<open>multasNormalizadas.sort((a, b) => ...)\<close>.\<close>

definition comparar_multas :: "javascript \<Rightarrow> objeto \<Rightarrow> objeto \<Rightarrow> int" where
  "comparar_multas js a b =
     (let da = String_de js (js_or (campo a ''DataVencimento'') (JStr []));
          db = String_de js (js_or (campo b ''DataVencimento'') (JStr []))
      in if da \<noteq> [] \<and> db \<noteq> [] then js_localeCompare js da db
         else js_Number_menos js (js_or (campo a ''MultaID'') (JNum 0))
                (js_or (campo b ''MultaID'') (JNum 0)))"

text \<open>Strings compared by \<^verbatim>\<open><\<close>: the order of the code units, a proper prefix first.\<close>

fun menor_string :: "string \<Rightarrow> string \<Rightarrow> bool" where
  "menor_string [] [] = False"
| "menor_string [] (y # ys) = True"
| "menor_string (x # xs) [] = False"
| "menor_string (x # xs) (y # ys) =
     ((of_char x :: nat) < of_char y \<or> (x = y \<and> menor_string xs ys))"

text \<open>The object of filters \<^verbatim>\<open>{ clienteId, reservaId, status, vencidas, multaId }\<close>.\<close>

record filtros =
  f_clienteId :: jsval
  f_reservaId :: jsval
  f_status :: jsval
  f_vencidas :: jsval
  f_multaId :: jsval

text \<open>The status filter of \<^verbatim>\<open>obterMultasFiltradas\<close>, the block \<^verbatim>\<open>if (status) { ... }\<close>.\<close>

definition filtrar_status :: "javascript \<Rightarrow> jsval \<Rightarrow> objeto list \<Rightarrow> objeto list" where
  "filtrar_status js status multasNormalizadas =
     (if truthy status then
        let statusNormalizado = toLowerCase (String_de js status) in
        if statusNormalizado = ''pendente'' then
          filter (\<lambda>m.
            let st = toLowerCase (String_de js (js_or (campo m ''Status'') (JStr [])))
            in \<not> truthy (campo m ''DataPagamento'') \<and> st \<noteq> ''paga'' \<and> st \<noteq> ''pago'')
            multasNormalizadas
        else if statusNormalizado = ''paga'' \<or> statusNormalizado = ''pago'' then
          filter (\<lambda>m.
            let st = toLowerCase (String_de js (js_or (campo m ''Status'') (JStr [])))
            in truthy (campo m ''DataPagamento'') \<or> st = ''paga'' \<or> st = ''pago'')
            multasNormalizadas
        else multasNormalizadas
      else multasNormalizadas)"

text \<open>The block \<^verbatim>\<open>if (vencidas) { ... }\<close>.\<close>

definition filtrar_vencidas :: "javascript \<Rightarrow> jsval \<Rightarrow> objeto list \<Rightarrow> objeto list" where
  "filtrar_vencidas js vencidas multasNormalizadas =
     (if truthy vencidas then
        filter (\<lambda>m.
          if truthy (campo m ''DataPagamento'') then False
          else let dataBase = takeWhile (\<lambda>c. c \<noteq> CHR ''T'')
                     (String_de js (js_or (campo m ''DataVencimento'') (JStr [])))
               in dataBase \<noteq> [] \<and> menor_string dataBase (js_hojeIso js))
          multasNormalizadas
      else multasNormalizadas)"

text \<open>The blocks \<^verbatim>\<open>if (multaId) { ... }\<close> and \<^verbatim>\<open>if (reservaId) { ... }\<close>.\<close>

definition filtrar_multaId :: "javascript \<Rightarrow> jsval \<Rightarrow> objeto list \<Rightarrow> objeto list" where
  "filtrar_multaId js multaId multasNormalizadas =
     (if truthy multaId
      then filter (\<lambda>m. js_Number_igual js (campo m ''MultaID'') multaId) multasNormalizadas
      else multasNormalizadas)"

definition filtrar_reservaId :: "javascript \<Rightarrow> jsval \<Rightarrow> objeto list \<Rightarrow> objeto list" where
  "filtrar_reservaId js reservaId multasNormalizadas =
     (if truthy reservaId
      then filter (\<lambda>m. js_Number_igual js (campo m ''ReservaID'') reservaId) multasNormalizadas
      else multasNormalizadas)"

text \<open>
  The end of \<^verbatim>\<open>obterMultasFiltradas\<close>: the sort, then the enrichment inside its
  \<^verbatim>\<open>try\<close>, whose \<^verbatim>\<open>catch\<close> returns the sorted rows as they are.
\<close>

definition ordenar_e_enriquecer :: "javascript \<Rightarrow> loja \<Rightarrow> objeto list \<Rightarrow> objeto list" where
  "ordenar_e_enriquecer js db multasNormalizadas =
     (let ordenadas = ordenar (comparar_multas js) multasNormalizadas in
      case enriquecerMultas db ordenadas of
        Inr enriquecidas \<Rightarrow> enriquecidas
      | Inl enriquecerError \<Rightarrow> ordenadas)"

text \<open>
  The block \<^verbatim>\<open>if (clienteId) { ... }\<close> and what follows it: \<open>Inl\<close> is the error thrown by
  \<open>obterReservaIdsPorCliente\<close>; a client without reservations returns \<^verbatim>\<open>[]\<close> at once.
\<close>

definition filtrar_cliente :: "javascript \<Rightarrow> loja \<Rightarrow> jsval \<Rightarrow> objeto list \<Rightarrow> string + objeto list" where
  "filtrar_cliente js db clienteId multasNormalizadas =
     (if truthy clienteId then
        if list_ex (\<lambda>m. campo m ''ClienteID'' \<noteq> JNull \<and> campo m ''ClienteID'' \<noteq> JUndefined)
             multasNormalizadas
        then Inr (ordenar_e_enriquecer js db
               (filter (\<lambda>m. js_Number_igual js (campo m ''ClienteID'') clienteId) multasNormalizadas))
        else
          (case obterReservaIdsPorCliente db clienteId of
             Inl e \<Rightarrow> Inl e
           | Inr reservaIds \<Rightarrow>
               if reservaIds = [] then Inr []
               else Inr (ordenar_e_enriquecer js db
                      (filter (\<lambda>m. list_ex (js_Number_mesmo js (campo m ''ReservaID'')) reservaIds)
                         multasNormalizadas)))
      else Inr (ordenar_e_enriquecer js db multasNormalizadas))"

text \<open>
  \<^verbatim>\<open>obterMultasFiltradas\<close>: \<open>Inl\<close> is the error it throws (the \<^verbatim>\<open>TypeError\<close> of a \<^verbatim>\<open>null\<close>
  client, the error of the first query, the error of \<open>obterReservaIdsPorCliente\<close>). The
  rows go through the filter blocks in the order of the source.
\<close>

definition obterMultasFiltradas :: "javascript \<Rightarrow> loja option \<Rightarrow> filtros \<Rightarrow> string + objeto list" where
  "obterMultasFiltradas js supabase f =
     (case supabase of
        None \<Rightarrow> Inl erro_supabase_nulo
      | Some db \<Rightarrow>
          (case rerror (multa_select db) of
             Some e \<Rightarrow> Inl e
           | None \<Rightarrow>
               filtrar_cliente js db (f_clienteId f)
                 (filtrar_vencidas js (f_vencidas f)
                   (filtrar_status js (f_status f)
                     (filtrar_reservaId js (f_reservaId f)
                       (filtrar_multaId js (f_multaId f)
                         (map normalizarMulta (linhas (multa_select db)))))))))"

section \<open>server.js: GET /multas\<close>

text \<open>
  The checks of the three ids,
  \<^verbatim>\<open>!v || Number.isNaN(Number(v)) || Number(v) <= 0\<close>. The filter keeps the value of the query:
  every later use of it goes through \<^verbatim>\<open>Number\<close> again or tests its truthiness.
\<close>

definition id_invalido :: "javascript \<Rightarrow> jsval \<Rightarrow> bool" where
  "id_invalido js v = (\<not> truthy v \<or> \<not> js_Number_positivo js v)"

definition get_multas :: "javascript \<Rightarrow> loja option \<Rightarrow> requisicao \<Rightarrow> resposta" where
  "get_multas js supabase req =
     (let status = campo (query req) ''status''; vencidas = campo (query req) ''vencidas'';
          clienteId = campo (query req) ''clienteId''; reservaId = campo (query req) ''reservaId'';
          multaId = campo (query req) ''multaId''
      in if clienteId \<noteq> JUndefined \<and> id_invalido js clienteId then
           respostaErro 400 (''ID de cliente inv'' @ [CHR 0xE1] @ ''lido'') None
         else if reservaId \<noteq> JUndefined \<and> id_invalido js reservaId then
           respostaErro 400 (''ID de reserva inv'' @ [CHR 0xE1] @ ''lido'') None
         else if multaId \<noteq> JUndefined \<and> id_invalido js multaId then
           respostaErro 400 (''ID da multa inv'' @ [CHR 0xE1] @ ''lido'') None
         else
           let f = \<lparr>f_clienteId = clienteId, f_reservaId = reservaId,
                    f_status = (if truthy status then JStr (String_de js status) else JUndefined),
                    f_vencidas = (if vencidas \<noteq> JUndefined
                                  then JBool (toLowerCase (String_de js vencidas) = ''true'')
                                  else JUndefined),
                    f_multaId = multaId\<rparr>
           in case obterMultasFiltradas js supabase f of
                Inr multas \<Rightarrow> respostaSucesso 200 ''Multas encontradas'' (JArr (map JObj multas))
              | Inl e \<Rightarrow> respostaErro 500 ''Erro ao buscar multas'' (Some e))"

subsection \<open>Vocabulary and an example for the statements about GET /multas\<close>

text \<open>The query of a request without one of its parameters.\<close>

definition sem_parametro :: "string \<Rightarrow> objeto \<Rightarrow> objeto" where
  "sem_parametro k q = filter (\<lambda>kv. fst kv \<noteq> k) q"

text \<open>
  Conversions for the examples: numbers are compared as the values they are, strings by
  their code units, and the current day is 1 June 2024.
\<close>

definition exemplo_js :: javascript where
  "exemplo_js =
     \<lparr>js_String = (\<lambda>v. []),
      js_Number_igual = (\<lambda>a b. a = b),
      js_Number_mesmo = (\<lambda>a b. a = b),
      js_Number_menos = (\<lambda>a b. case (a, b) of (JNum x, JNum y) \<Rightarrow> x - y | _ \<Rightarrow> 0),
      js_Number_positivo = (\<lambda>v. case v of JNum n \<Rightarrow> 0 < n | _ \<Rightarrow> False),
      js_Number = (\<lambda>v. None),
      js_parseInt = (\<lambda>v. case v of JNum n \<Rightarrow> JNum n | _ \<Rightarrow> JNaN),
      js_menor = (\<lambda>a b. False),
      js_localeCompare = (\<lambda>a b. if menor_string a b then - 1 else if a = b then 0 else 1),
      js_hojeIso = ''2024-06-01''\<rparr>"

text \<open>A fine table with a pending, a paid and a cancelled fine.\<close>

definition exemplo_loja_multas :: loja where
  "exemplo_loja_multas =
     loja_vazia\<lparr>multa_select :=
       Retorno (Some
         [[(''MultaID'', JNum 1), (''Status'', JStr ''pendente''), (''DataPagamento'', JNull)],
          [(''MultaID'', JNum 2), (''Status'', JStr ''paga''), (''DataPagamento'', JStr ''2024-05-02'')],
          [(''MultaID'', JNum 3), (''Status'', JStr ''cancelada''), (''DataPagamento'', JNull)]])
         None\<rparr>"

definition exemplo_req_multas :: "string \<Rightarrow> requisicao" where
  "exemplo_req_multas s =
     \<lparr>authorization = None, params_id = [], query = [(''status'', JStr s)], body = []\<rparr>"

section \<open>server.js: DELETE /reservas/:id\<close>

text \<open>
  For this route the store is a state: the rows of the table \<^verbatim>\<open>reservas\<close>. The filter
  \<^verbatim>\<open>.eq('ReservaID', id)\<close> keeps the rows whose \<^verbatim>\<open>ReservaID\<close> the store finds equal to the
  text of the path (\<open>id_igual\<close>, the comparison of the store). A query may also fail as a
  whole (a rejected literal, the network, a permission): \<open>falha_consulta\<close> and
  \<open>falha_atualizacao\<close> are the error of the \<^verbatim>\<open>select\<close> and of the \<^verbatim>\<open>update\<close>, if any; a failed
  update changes no row.
\<close>

record banco =
  reservas :: "objeto list"
  id_igual :: "jsval \<Rightarrow> string \<Rightarrow> bool"
  falha_consulta :: "string option"
  falha_atualizacao :: "string option"

text \<open>\<^verbatim>\<open>from('reservas').select('ReservaID, Status, DataEntrega').eq('ReservaID', id)\<close>.\<close>

definition reservas_select_eq :: "banco \<Rightarrow> string \<Rightarrow> objeto list retorno" where
  "reservas_select_eq b ident =
     (case falha_consulta b of
        Some e \<Rightarrow> Retorno None (Some e)
      | None \<Rightarrow>
          Retorno (Some (map (\<lambda>r. [(''ReservaID'', campo r ''ReservaID''),
                                     (''Status'', campo r ''Status''),
                                     (''DataEntrega'', campo r ''DataEntrega'')])
                         (filter (\<lambda>r. id_igual b (campo r ''ReservaID'') ident) (reservas b))))
            None)"

text \<open>The properties of an update payload written into a row.\<close>

fun aplicar :: "objeto \<Rightarrow> objeto \<Rightarrow> objeto" where
  "aplicar [] linha = linha"
| "aplicar ((k, v) # kvs) linha = aplicar kvs (atribuir k v linha)"

text \<open>
  \<^verbatim>\<open>from('reservas').update(payload).eq('ReservaID', id).select()\<close>: the answer, with the
  updated rows, and the new state.
\<close>

definition reservas_update_eq :: "banco \<Rightarrow> objeto \<Rightarrow> string \<Rightarrow> objeto list retorno \<times> banco" where
  "reservas_update_eq b payload ident =
     (case falha_atualizacao b of
        Some e \<Rightarrow> (Retorno None (Some e), b)
      | None \<Rightarrow>
          (Retorno (Some (map (aplicar payload)
                      (filter (\<lambda>r. id_igual b (campo r ''ReservaID'') ident) (reservas b))))
             None,
           b\<lparr>reservas :=
               map (\<lambda>r. if id_igual b (campo r ''ReservaID'') ident then aplicar payload r else r)
                 (reservas b)\<rparr>))"

text \<open>The handler: the response and the state of the store after it.\<close>

definition delete_reserva :: "banco option \<Rightarrow> requisicao \<Rightarrow> resposta \<times> banco option" where
  "delete_reserva supabase req =
     (let ident = params_id req in
      if ident = [] \<or> isNaN ident then
        (respostaErro 400 (''ID de reserva inv'' @ [CHR 0xE1] @ ''lido'') None, supabase)
      else
        case supabase of
          None \<Rightarrow> (respostaErro 500 ''Erro ao cancelar reserva'' (Some erro_supabase_nulo), None)
        | Some b \<Rightarrow>
            (case pg_single (reservas_select_eq b ident) of
               Retorno reservaData buscarErro \<Rightarrow>
                 if buscarErro \<noteq> None \<or> reservaData = None then
                   (respostaErro 404 (''Reserva n'' @ [CHR 0xE3] @ ''o encontrada'') None, Some b)
                 else
                   (case reservas_update_eq b [(''Status'', JStr ''cancelada'')] ident of
                      (Retorno d (Some e), b') \<Rightarrow>
                        (respostaErro 500 ''Erro ao cancelar reserva'' (Some e), Some b')
                    | (Retorno None None, b') \<Rightarrow>
                        (respostaErro 500 ''Erro ao cancelar reserva''
                           (Some (''Cannot read properties of null (reading '' @ [CHR 0x27] @ ''0''
                                  @ [CHR 0x27] @ '')'')), Some b')
                    | (Retorno (Some []) None, b') \<Rightarrow>
                        (respostaSucesso 200 ''Reserva cancelada com sucesso'' JUndefined, Some b')
                    | (Retorno (Some (linha # outras)) None, b') \<Rightarrow>
                        (respostaSucesso 200 ''Reserva cancelada com sucesso'' (JObj linha), Some b'))))"

text \<open>An example table with two reservations, compared with the path by their number.\<close>

definition exemplo_banco :: banco where
  "exemplo_banco =
     \<lparr>reservas =
        [[(''ReservaID'', JNum 1), (''ClienteID'', JNum 10), (''LivroID'', JNum 5),
          (''QuantidadeReservada'', JNum 2), (''Status'', JStr ''ativa'')],
         [(''ReservaID'', JNum 2), (''ClienteID'', JNum 11), (''LivroID'', JNum 6),
          (''QuantidadeReservada'', JNum 1), (''Status'', JStr ''finalizada'')]],
      id_igual = (\<lambda>v s. (v = JNum 1 \<and> s = ''1'') \<or> (v = JNum 2 \<and> s = ''2'')),
      falha_consulta = None,
      falha_atualizacao = None\<rparr>"

section \<open>validators.js on arbitrary values\<close>

text \<open>
  The exported functions, applied to any value. A function that cannot throw returns a
  value; \<^verbatim>\<open>formatarData\<close> returns a value or throws (\<open>Inl\<close>).
\<close>

definition e_string :: "jsval \<Rightarrow> bool" where
  "e_string v = (case v of JStr s \<Rightarrow> True | _ \<Rightarrow> False)"


text \<open>\<^verbatim>\<open>if (!cpf || typeof cpf !== 'string') return false;\<close> and then the check of the string.\<close>

definition validarCPF_js :: "jsval \<Rightarrow> jsval" where
  "validarCPF_js cpf =
     (if \<not> truthy cpf \<or> \<not> e_string cpf then JBool False
      else case cpf of JStr s \<Rightarrow> JBool (validarCPF s) | _ \<Rightarrow> JBool False)"

definition validarData_valor :: "jsval \<Rightarrow> jsval" where
  "validarData_valor v =
     (if \<not> truthy v \<or> \<not> e_string v then JBool False
      else case v of JStr s \<Rightarrow> JBool (validarData s) | _ \<Rightarrow> JBool False)"









text \<open>
  \<^verbatim>\<open>sanitizarEntrada\<close>: a value that is not a string is returned as it is; from a string the
  characters \<^verbatim>\<open><\<close>, \<^verbatim>\<open>>\<close>, \<^verbatim>\<open>"\<close> and \<^verbatim>\<open>'\<close> are removed and the result is trimmed.
\<close>

definition sanitizar_texto :: "string \<Rightarrow> string" where
  "sanitizar_texto s =
     js_trim (filter (\<lambda>c. c \<noteq> CHR 0x22 \<and> c \<noteq> CHR 0x27)
               (filter (\<lambda>c. c \<noteq> CHR ''<'' \<and> c \<noteq> CHR ''>'') s))"

definition sanitizarEntrada :: "jsval \<Rightarrow> jsval" where
  "sanitizarEntrada entrada =
     (case entrada of JStr s \<Rightarrow> JStr (sanitizar_texto s) | _ \<Rightarrow> entrada)"







section \<open>server.js: POST /reservas\<close>

text \<open>The decimal digits of a number, as a template literal prints it.\<close>

function digitos :: "nat \<Rightarrow> string" where
  "digitos n = (if n < 10 then [char_of (48 + n)] else digitos (n div 10) @ [char_of (48 + n mod 10)])"
  by pat_completeness auto
termination
  by (relation "measure (\<lambda>n. n)") auto

declare digitos.simps [simp del]

definition decimal :: "int \<Rightarrow> string" where
  "decimal i = (if i < 0 then CHR ''-'' # digitos (nat (- i)) else digitos (nat i))"

text \<open>\<^verbatim>\<open>`${v}`\<close> for a value read from a row.\<close>

definition texto_de :: "javascript \<Rightarrow> jsval \<Rightarrow> string" where
  "texto_de js v =
     (case v of
        JNum n \<Rightarrow> decimal n
      | JNull \<Rightarrow> ''null''
      | JUndefined \<Rightarrow> ''undefined''
      | JNaN \<Rightarrow> ''NaN''
      | JBool b \<Rightarrow> (if b then ''true'' else ''false'')
      | _ \<Rightarrow> String_de js v)"

text \<open>\<^verbatim>\<open>a < q\<close> for a value read from a row and a number \<open>q\<close>.\<close>

definition menor_que :: "javascript \<Rightarrow> jsval \<Rightarrow> int \<Rightarrow> bool" where
  "menor_que js v q =
     (case v of
        JNum a \<Rightarrow> a < q
      | JNull \<Rightarrow> 0 < q
      | JBool b \<Rightarrow> (if b then 1 else 0) < q
      | JUndefined \<Rightarrow> False
      | JNaN \<Rightarrow> False
      | _ \<Rightarrow> js_menor js v (JNum q))"

text \<open>
  \<^verbatim>\<open>!v?.trim()\<close>: \<^verbatim>\<open>null\<close> and \<^verbatim>\<open>undefined\<close> stop the chain and count as missing; a string is
  missing when only white space; any other value has no method \<^verbatim>\<open>trim\<close>, and the call
  throws.
\<close>

definition falta :: "string \<Rightarrow> jsval \<Rightarrow> excecao + bool" where
  "falta nome_campo v =
     (case v of
        JUndefined \<Rightarrow> Inr True
      | JNull \<Rightarrow> Inr True
      | JStr s \<Rightarrow> Inr (js_trim s = [])
      | _ \<Rightarrow> Inl (Excecao ''TypeError'' (nome_campo @ ''?.trim is not a function'')))"

text \<open>
  \<^verbatim>\<open>Number(v)\<close>: a number is itself, \<^verbatim>\<open>null\<close> is 0, \<^verbatim>\<open>undefined\<close> is \<^verbatim>\<open>NaN\<close>, a boolean is 0 or
  1; a string is trimmed of white space, and then the empty string is 0 and a string of at
  most 15 decimal digits is the number they write (every such number is a double). Any
  other string, an array and an object are left to the parameter \<open>js_Number\<close>.
\<close>

definition Number_de :: "javascript \<Rightarrow> jsval \<Rightarrow> jsval" where
  "Number_de js v =
     (case v of
        JNum n \<Rightarrow> JNum n
      | JNaN \<Rightarrow> JNaN
      | JNull \<Rightarrow> JNum 0
      | JUndefined \<Rightarrow> JNaN
      | JBool b \<Rightarrow> JNum (if b then 1 else 0)
      | JStr s \<Rightarrow>
          (let t = js_trim s in
           if t = [] then JNum 0
           else if list_all is_digit t \<and> length t \<le> 15 then JNum (numero t)
           else (case js_Number js v of None \<Rightarrow> JNaN | Some n \<Rightarrow> JNum n))
      | _ \<Rightarrow> (case js_Number js v of None \<Rightarrow> JNaN | Some n \<Rightarrow> JNum n))"

text \<open>\<^verbatim>\<open>const livroIdNumero = LivroID ? Number(LivroID) : null\<close>.\<close>

definition livroIdNumero :: "javascript \<Rightarrow> jsval \<Rightarrow> jsval" where
  "livroIdNumero js LivroID = (if truthy LivroID then Number_de js LivroID else JNull)"

text \<open>\<^verbatim>\<open>isNaN(n) || n <= 0\<close> on the number \<^verbatim>\<open>Number(LivroID)\<close>.\<close>

definition nao_positivo :: "jsval \<Rightarrow> bool" where
  "nao_positivo n = (case n of JNum i \<Rightarrow> i \<le> 0 | _ \<Rightarrow> True)"

text \<open>The values the handler has in hand once all its checks of the body have passed.\<close>

record dados_reserva =
  d_CPF :: string
  d_NomeLivro :: "string option"
  d_LivroID :: jsval
  d_QntdLivro :: int
  d_Entrega :: string
  d_Observacao :: jsval
  d_dataRetirada :: string
  d_dataVolta :: string

definition erro_reserva :: "excecao \<Rightarrow> resposta" where
  "erro_reserva e = respostaErro 500 ''Erro ao cadastrar reserva'' (Some (mensagem e))"

definition campos_obrigatorios :: resposta where
  "campos_obrigatorios =
     respostaErro 400 (''Todos os campos obrigat'' @ [CHR 0xF3] @ ''rios devem ser preenchidos'') None"

text \<open>
  The first part of the handler, from the destructuring of the body to \<^verbatim>\<open>dadosSanitizados\<close>:
  \<open>Inl\<close> is the response of a check that fails (or of the \<^verbatim>\<open>catch\<close>), \<open>Inr\<close> the values that go
  on to the store. The operands of the first test are evaluated from left to right, and
  the test stops at the first that holds. The id of the book goes on as the number
  \<^verbatim>\<open>livroIdNumero\<close>, or as \<^verbatim>\<open>null\<close> when the body has none.
\<close>

definition validar_reserva :: "javascript \<Rightarrow> objeto \<Rightarrow> resposta + dados_reserva" where
  "validar_reserva js b =
     (let CPFReserva = campo b ''CPFReserva''; NomeLivro = campo b ''NomeLivro'';
          LivroID = campo b ''LivroID''; QntdLivro = campo b ''QntdLivro'';
          DataRetirada = campo b ''DataRetirada''; DataVolta = campo b ''DataVolta'';
          Entrega = campo b ''Entrega''; Observacao = campo b ''Observacao''
      in
      case falta ''CPFReserva'' CPFReserva of Inl e \<Rightarrow> Inl (erro_reserva e)
      | Inr True \<Rightarrow> Inl campos_obrigatorios
      | Inr False \<Rightarrow>
      case falta ''NomeLivro'' NomeLivro of Inl e \<Rightarrow> Inl (erro_reserva e)
      | Inr semNome \<Rightarrow>
      if semNome \<and> \<not> truthy LivroID then Inl campos_obrigatorios
      else if \<not> truthy QntdLivro then Inl campos_obrigatorios
      else
      case falta ''DataRetirada'' DataRetirada of Inl e \<Rightarrow> Inl (erro_reserva e)
      | Inr True \<Rightarrow> Inl campos_obrigatorios
      | Inr False \<Rightarrow>
      case falta ''DataVolta'' DataVolta of Inl e \<Rightarrow> Inl (erro_reserva e)
      | Inr True \<Rightarrow> Inl campos_obrigatorios
      | Inr False \<Rightarrow>
      case falta ''Entrega'' Entrega of Inl e \<Rightarrow> Inl (erro_reserva e)
      | Inr True \<Rightarrow> Inl campos_obrigatorios
      | Inr False \<Rightarrow>
      if validarCPF_js CPFReserva \<noteq> JBool True then
        Inl (respostaErro 400 (''CPF inv'' @ [CHR 0xE1] @ ''lido'') None)
      else if validarData_valor DataRetirada \<noteq> JBool True \<or> validarData_valor DataVolta \<noteq> JBool True then
        Inl (respostaErro 400 (''Formato de data inv'' @ [CHR 0xE1] @ ''lido. Use DD/MM/YYYY'') None)
      else
      case js_parseInt js QntdLivro of
        JNum qntd \<Rightarrow>
          if qntd \<le> 0 then
            Inl (respostaErro 400 (''Quantidade deve ser um n'' @ [CHR 0xFA] @ ''mero maior que 0'') None)
          else
          (case (CPFReserva, DataRetirada, DataVolta, Entrega) of
             (JStr cpf, JStr dr, JStr dv, JStr entrega) \<Rightarrow>
               (case (formatarData dr, formatarData dv) of
                  (Inr dataRetiradaFormatada, Inr dataVoltaFormatada) \<Rightarrow>
                    if truthy LivroID \<and> nao_positivo (livroIdNumero js LivroID) then
                      Inl (respostaErro 400 (''LivroID deve ser um n'' @ [CHR 0xFA] @ ''mero v''
                             @ [CHR 0xE1] @ ''lido'') None)
                    else
                      Inr \<lparr>d_CPF = sanitizar_texto cpf,
                           d_NomeLivro =
                             (case NomeLivro of
                                JStr n \<Rightarrow> if n = [] then None else Some (sanitizar_texto n)
                              | _ \<Rightarrow> None),
                           d_LivroID = livroIdNumero js LivroID,
                           d_QntdLivro = qntd,
                           d_Entrega = sanitizar_texto entrega,
                           d_Observacao = sanitizarEntrada Observacao,
                           d_dataRetirada = dataRetiradaFormatada,
                           d_dataVolta = dataVoltaFormatada\<rparr>
                | (Inl e, _) \<Rightarrow> Inl (erro_reserva e)
                | (_, Inl e) \<Rightarrow> Inl (erro_reserva e))
           | _ \<Rightarrow> Inl campos_obrigatorios)
      | _ \<Rightarrow>
          Inl (respostaErro 400 (''Quantidade deve ser um n'' @ [CHR 0xFA] @ ''mero maior que 0'') None))"

text \<open>The row the handler inserts.\<close>

definition nova_reserva :: "dados_reserva \<Rightarrow> objeto \<Rightarrow> objeto \<Rightarrow> objeto" where
  "nova_reserva d clienteData livroData =
     [(''ClienteID'', campo clienteData ''ClienteID''),
      (''LivroID'', campo livroData ''LivroID''),
      (''DataRetirada'', JStr (d_dataRetirada d)),
      (''DataPrevistaEntrega'', JStr (d_dataVolta d)),
      (''FormaRetirada'', JStr (d_Entrega d)),
      (''QuantidadeReservada'', JNum (d_QntdLivro d)),
      (''Observacao'', d_Observacao d),
      (''Status'', JStr ''ativa'')]"

text \<open>
  The book query: by id when \<^verbatim>\<open>dadosSanitizados.LivroID\<close> is truthy, else by
  \<^verbatim>\<open>ilike('NomeLivro', `%${NomeLivro}%`)\<close> when the sanitized title is not empty; \<open>None\<close> when
  neither holds. \<open>consulta_livro\<close> is the query, \<open>buscar_livro\<close> the query with the
  \<^verbatim>\<open>.maybeSingle()\<close> that ends it.
\<close>

definition consulta_livro :: "loja \<Rightarrow> dados_reserva \<Rightarrow> objeto list retorno option" where
  "consulta_livro db d =
     (if truthy (d_LivroID d) then Some (livro_por_id db (d_LivroID d))
      else case d_NomeLivro d of
             None \<Rightarrow> None
           | Some n \<Rightarrow> if n = [] then None else Some (livro_ilike_nome db (''%'' @ n @ ''%'')))"

definition buscar_livro :: "loja \<Rightarrow> dados_reserva \<Rightarrow> objeto retorno option" where
  "buscar_livro db d = map_option pg_maybeSingle (consulta_livro db d)"

text \<open>The second part of the handler: the queries and the insertion.\<close>

definition reservar :: "javascript \<Rightarrow> loja option \<Rightarrow> dados_reserva \<Rightarrow> resposta" where
  "reservar js supabase d =
     (case supabase of
        None \<Rightarrow> respostaErro 500 ''Erro ao cadastrar reserva'' (Some erro_supabase_nulo)
      | Some db \<Rightarrow>
          (case pg_maybeSingle (cliente_por_cpf db (d_CPF d)) of
             Retorno clienteData (Some clienteErro) \<Rightarrow>
               respostaErro 500 ''Erro na consulta de cliente'' None
           | Retorno None None \<Rightarrow>
               respostaErro 402 (''Cliente n'' @ [CHR 0xE3] @ ''o encontrado'') None
           | Retorno (Some clienteData) None \<Rightarrow>
               (case buscar_livro db d of
                  None \<Rightarrow> respostaErro 400 ''Informe LivroID ou NomeLivro'' None
                | Some (Retorno livroData (Some livroErro)) \<Rightarrow>
                    respostaErro 500 ''Erro na consulta de livro'' None
                | Some (Retorno None None) \<Rightarrow>
                    respostaErro 404 (''Livro n'' @ [CHR 0xE3] @ ''o encontrado'') None
                | Some (Retorno (Some livroData) None) \<Rightarrow>
                    if menor_que js (campo livroData ''QuantidadeDisponivel'') (d_QntdLivro d) then
                      respostaErro 400
                        (''Apenas '' @ texto_de js (campo livroData ''QuantidadeDisponivel'')
                           @ '' livros dispon'' @ [CHR 0xED] @ ''veis'') None
                    else
                      (case pg_single (reservas_insert db (nova_reserva d clienteData livroData)) of
                         Retorno reservaData (Some reservaErro) \<Rightarrow>
                           respostaErro 500 ''Erro ao inserir reserva'' None
                       | Retorno None None \<Rightarrow>
                           respostaSucesso 201 ''Reserva cadastrada com sucesso''
                             (JObj [(''reserva'', JNull)])
                       | Retorno (Some reservaData) None \<Rightarrow>
                           respostaSucesso 201 ''Reserva cadastrada com sucesso''
                             (JObj [(''reserva'', JObj reservaData)])))))"

definition post_reservas :: "javascript \<Rightarrow> loja option \<Rightarrow> requisicao \<Rightarrow> resposta" where
  "post_reservas js supabase req =
     (case validar_reserva js (body req) of
        Inl r \<Rightarrow> r
      | Inr d \<Rightarrow> reservar js supabase d)"

text \<open>
  An example for POST /reservas: a store with one client and the books \<^verbatim>\<open>Casa\<close> (id 5) and
  \<^verbatim>\<open>Mar\<close> (id 6), which answers an id with the book of that id and a title pattern with the
  books whose title contains the text between the two \<^verbatim>\<open>%\<close>; requests that name the book by
  its title or by its id; and the same store when it refuses every insertion.
\<close>

definition exemplo_livros :: "objeto list" where
  "exemplo_livros =
     [[(''LivroID'', JNum 5), (''NomeLivro'', JStr ''Casa''), (''QuantidadeDisponivel'', JNum 3)],
      [(''LivroID'', JNum 6), (''NomeLivro'', JStr ''Mar''), (''QuantidadeDisponivel'', JNum 1)]]"

definition exemplo_loja_reserva :: loja where
  "exemplo_loja_reserva =
     loja_vazia\<lparr>cliente_por_cpf :=
       (\<lambda>c. if c = ''529.982.247-25'' then Retorno (Some [[(''ClienteID'', JNum 10)]]) None
            else Retorno (Some []) None),
      livro_por_id :=
       (\<lambda>i. Retorno (Some (filter (\<lambda>l. campo l ''LivroID'' = i) exemplo_livros)) None),
      livro_ilike_nome :=
       (\<lambda>p. Retorno (Some (filter (\<lambda>l. case campo l ''NomeLivro'' of
                                           JStr t \<Rightarrow> sublist (toLowerCase (butlast (tl p))) (toLowerCase t)
                                         | _ \<Rightarrow> False)
                exemplo_livros))
              None),
      reservas_insert := (\<lambda>r. Retorno (Some [(''ReservaID'', JNum 1) # r]) None)\<rparr>"

definition exemplo_corpo_reserva :: "string \<Rightarrow> int \<Rightarrow> objeto" where
  "exemplo_corpo_reserva titulo n =
     [(''CPFReserva'', JStr ''529.982.247-25''), (''NomeLivro'', JStr titulo),
      (''QntdLivro'', JNum n), (''DataRetirada'', JStr ''15/03/2024''),
      (''DataVolta'', JStr ''29/03/2024''), (''Entrega'', JStr ''Retirada'')]"

definition exemplo_req_reserva :: "string \<Rightarrow> int \<Rightarrow> requisicao" where
  "exemplo_req_reserva titulo n =
     \<lparr>authorization = None, params_id = [], query = [], body = exemplo_corpo_reserva titulo n\<rparr>"



section \<open>Verification\<close>

subsection \<open>validarCPF\<close>

lemma soma_pesos_sum:
  "soma_pesos numeros base lim i soma = soma + (\<Sum>k = i..<lim. numeros ! k * (base - k))"
proof (induction numeros base lim i soma rule: soma_pesos.induct)
  case (1 numeros base lim i soma)
  show ?case
  proof (cases "i < lim")
    case True
    with "1" show ?thesis
      by (subst soma_pesos.simps) (simp add: sum.atLeast_Suc_lessThan add.assoc)
  next
    case False
    then show ?thesis by (subst soma_pesos.simps) simp
  qed
qed

lemma length11:
  assumes "length (d :: 'a list) = 11"
  obtains a0 a1 a2 a3 a4 a5 a6 a7 a8 a9 a10 where "d = [a0, a1, a2, a3, a4, a5, a6, a7, a8, a9, a10]"
proof -
  from assms show ?thesis
    by (auto simp: length_Suc_conv eval_nat_numeral intro: that)
qed

lemma soma9:
  "length d = 11 \<Longrightarrow> soma_pesos d 10 9 0 0 = weighted_sum (take 9 d) [10, 9, 8, 7, 6, 5, 4, 3, 2]"
  by (erule length11) (simp add: soma_pesos_sum weighted_sum_def eval_nat_numeral sum.atLeast_Suc_lessThan)

lemma soma10:
  "length d = 11 \<Longrightarrow> soma_pesos d 11 10 0 0 = weighted_sum (take 10 d) [11, 10, 9, 8, 7, 6, 5, 4, 3, 2]"
  by (erule length11) (simp add: soma_pesos_sum weighted_sum_def eval_nat_numeral sum.atLeast_Suc_lessThan)

lemma todos_iguais_iff:
  assumes "length s = 11" "\<forall>c \<in> set s. is_digit c"
  shows "todos_iguais s \<longleftrightarrow> (\<exists>c. s = replicate 11 c)"
proof
  assume "todos_iguais s"
  then obtain c cs where "s = c # cs" "cs = replicate 10 c"
    by (auto simp: todos_iguais_def split: list.splits)
  then have "s = replicate 11 c" by (simp add: eval_nat_numeral)
  then show "\<exists>c. s = replicate 11 c" ..
next
  assume "\<exists>c. s = replicate 11 c"
  then obtain c where s: "s = replicate 11 c" ..
  then have "s = c # replicate 10 c" by (simp add: eval_nat_numeral)
  moreover from s assms(2) have "is_digit c" by simp
  ultimately show "todos_iguais s" by (simp add: todos_iguais_def)
qed

text \<open>
  Claim C2. For every input string, \<open>validarCPF\<close> returns true if and only if the string,
  stripped of its non-digit characters, has exactly 11 digits, is not 11 copies of one
  digit, and carries the two check digits computed from the weighted sums (weights 10
  down to 2 over the first 9 digits, 11 down to 2 over the first 10), a check digit being
  0 when the sum modulo 11 is below 2 and 11 minus that remainder otherwise. In
  particular every string whose digits are 11 copies of one digit is rejected.
\<close>

theorem validarCPF_iff_spec:
  "validarCPF s = cpf_spec s \<and> (filter is_digit s = replicate 11 c \<longrightarrow> \<not> validarCPF s)"
proof -
  define d where "d = filter is_digit s"
  have dig: "\<forall>c \<in> set d. is_digit c" by (simp add: d_def)
  have main: "validarCPF s = cpf_spec s"
  proof (cases "length d = 11")
    case False
    then show ?thesis
      by (auto simp: validarCPF_def cpf_spec_def Let_def d_def)
  next
    case True
    then have ne: "s \<noteq> []" by (auto simp: d_def)
    have len: "length (map digit_val d) = 11" using True by simp
    show ?thesis
      using True ne todos_iguais_iff [OF True dig] soma9 [OF len] soma10 [OF len]
      by (simp add: validarCPF_def cpf_spec_def Let_def d_def [symmetric] check_digit_def)
  qed
  have "\<not> cpf_spec s" if "filter is_digit s = replicate 11 c"
    using that by (auto simp: cpf_spec_def Let_def)
  with main show ?thesis by simp
qed

theorem validarCPF_iff_spec_witness:
  "validarCPF ''529.982.247-25'' \<and> cpf_spec ''529.982.247-25'' \<and> \<not> validarCPF ''111.111.111-11''"
proof -
  have a: "validarCPF ''529.982.247-25''" by code_simp
  have b: "filter is_digit ''111.111.111-11'' = replicate 11 CHR ''1''" by code_simp
  from a validarCPF_iff_spec [of "''529.982.247-25''"] have "cpf_spec ''529.982.247-25''" by simp
  moreover have "\<not> validarCPF ''111.111.111-11''"
    by (rule validarCPF_iff_spec [THEN conjunct2, THEN mp, OF b])
  ultimately show ?thesis using a by simp
qed

subsection \<open>Bearer extraction and the required-authentication middleware\<close>

lemma extrair_sem_prefixo:
  "\<not> prefix ''Bearer '' h \<Longrightarrow> extrairTokenDoHeader (Some h) = None"
  by (simp add: extrairTokenDoHeader_def)

lemma extrair_bearer_vazio:
  "extrairTokenDoHeader (Some ''Bearer '') = Some []"
  by (simp add: extrairTokenDoHeader_def)

text \<open>
  Claim C9. For every Authorization header value that does not start with the exact,
  case-sensitive prefix \<^verbatim>\<open>'Bearer '\<close>, and for the header that is exactly \<^verbatim>\<open>'Bearer '\<close>,
  \<open>extrairTokenDoHeader\<close> yields no usable token (\<^verbatim>\<open>null\<close> or the empty string) and
  \<open>autenticarToken\<close> answers 401 with code \<^verbatim>\<open>NO_TOKEN\<close>, the very response of the
  missing-header case, whatever the token verifier would say.
\<close>

theorem autenticarToken_NO_TOKEN:
  assumes "\<not> prefix ''Bearer '' h \<or> h = ''Bearer ''"
  shows "(extrairTokenDoHeader (Some h) = None \<or> extrairTokenDoHeader (Some h) = Some [])
       \<and> autenticarToken jwt_verify (Some h) = autenticarToken jwt_verify None
       \<and> (\<exists>r. autenticarToken jwt_verify (Some h) = Responde r
              \<and> statusCode r = 401 \<and> error r = Some ''NO_TOKEN'')"
  using assms
proof
  assume "\<not> prefix ''Bearer '' h"
  then have "extrairTokenDoHeader (Some h) = None" by (rule extrair_sem_prefixo)
  then show ?thesis by (simp add: autenticarToken_def extrairTokenDoHeader_def)
next
  assume "h = ''Bearer ''"
  then have "extrairTokenDoHeader (Some h) = Some []" by (simp add: extrair_bearer_vazio)
  then show ?thesis by (simp add: autenticarToken_def extrairTokenDoHeader_def)
qed

theorem autenticarToken_NO_TOKEN_witness:
  "(\<exists>r. autenticarToken (\<lambda>t. Inl (Excecao ''JsonWebTokenError'' ''jwt malformed'')) (Some ''bearer x'') = Responde r
        \<and> statusCode r = 401 \<and> error r = Some ''NO_TOKEN'')
   \<and> (\<exists>r. autenticarToken (\<lambda>t. Inl (Excecao ''JsonWebTokenError'' ''jwt malformed'')) (Some ''Token x'') = Responde r
        \<and> statusCode r = 401 \<and> error r = Some ''NO_TOKEN'')
   \<and> (\<exists>r. autenticarToken (\<lambda>t. Inl (Excecao ''JsonWebTokenError'' ''jwt malformed'')) (Some ''Bearer '') = Responde r
        \<and> statusCode r = 401 \<and> error r = Some ''NO_TOKEN'')
   \<and> (\<exists>r. autenticarToken (\<lambda>t. Inl (Excecao ''JsonWebTokenError'' ''jwt malformed'')) (Some ''Bearer x'') = Responde r
        \<and> statusCode r = 403 \<and> error r = Some ''INVALID_TOKEN'')"
proof -
  have a: "\<not> prefix ''Bearer '' ''bearer x'' \<or> ''bearer x'' = ''Bearer ''" by simp
  have b: "\<not> prefix ''Bearer '' ''Token x'' \<or> ''Token x'' = ''Bearer ''" by simp
  have c: "\<not> prefix ''Bearer '' ''Bearer '' \<or> ''Bearer '' = ''Bearer ''" by simp
  have d: "\<exists>r. autenticarToken (\<lambda>t. Inl (Excecao ''JsonWebTokenError'' ''jwt malformed'')) (Some ''Bearer x'') = Responde r
        \<and> statusCode r = 403 \<and> error r = Some ''INVALID_TOKEN''"
    by (simp add: autenticarToken_def extrairTokenDoHeader_def verificarAccessToken_def
        Token_invalido_def Token_expirado_def)
  from autenticarToken_NO_TOKEN [OF a] autenticarToken_NO_TOKEN [OF b]
       autenticarToken_NO_TOKEN [OF c] d
  show ?thesis by blast
qed

subsection \<open>Token-pair issuance\<close>

text \<open>
  Claim C10. For every user record, the payload of the access token issued by
  \<open>gerarParTokens\<close> has as role the record's role when that is truthy and the literal
  \<^verbatim>\<open>'user'\<close> otherwise, so the role of an access token is never missing; the payload of the
  refresh token holds the id and the email only, and no role.
\<close>

theorem gerarParTokens_payloads:
  "campo (carga (accessToken (gerarParTokens cfg usuario))) ''role'' =
      (if truthy (campo usuario ''role'') then campo usuario ''role'' else JStr ''user'')
   \<and> truthy (campo (carga (accessToken (gerarParTokens cfg usuario))) ''role'')
   \<and> carga (refreshToken (gerarParTokens cfg usuario)) =
        [(''id'', campo usuario ''id''), (''email'', campo usuario ''email'')]
   \<and> map_of (carga (refreshToken (gerarParTokens cfg usuario))) ''role'' = None"
  by (simp add: gerarParTokens_def gerarAccessToken_def gerarRefreshToken_def campo_def js_or_def)

theorem gerarParTokens_payloads_witness:
  "campo (carga (accessToken (gerarParTokens \<lparr>env_JWT_SECRET = None, env_JWT_REFRESH_SECRET = None\<rparr>
      [(''id'', JNum 1), (''email'', JStr ''a@b.com''), (''role'', JNull)]))) ''role'' = JStr ''user''
   \<and> campo (carga (accessToken (gerarParTokens \<lparr>env_JWT_SECRET = None, env_JWT_REFRESH_SECRET = None\<rparr>
      [(''id'', JNum 1), (''email'', JStr ''a@b.com'')]))) ''role'' = JStr ''user''
   \<and> campo (carga (accessToken (gerarParTokens \<lparr>env_JWT_SECRET = None, env_JWT_REFRESH_SECRET = None\<rparr>
      [(''id'', JNum 1), (''role'', JStr ''admin'')]))) ''role'' = JStr ''admin''"
  using gerarParTokens_payloads [of "\<lparr>env_JWT_SECRET = None, env_JWT_REFRESH_SECRET = None\<rparr>"
          "[(''id'', JNum 1), (''email'', JStr ''a@b.com''), (''role'', JNull)]"]
        gerarParTokens_payloads [of "\<lparr>env_JWT_SECRET = None, env_JWT_REFRESH_SECRET = None\<rparr>"
          "[(''id'', JNum 1), (''email'', JStr ''a@b.com'')]"]
        gerarParTokens_payloads [of "\<lparr>env_JWT_SECRET = None, env_JWT_REFRESH_SECRET = None\<rparr>"
          "[(''id'', JNum 1), (''role'', JStr ''admin'')]"]
  by (simp add: campo_def)

subsection \<open>DELETE /cliente/:id and the Authorization header\<close>

lemma delete_cliente_status:
  "statusCode (delete_cliente supabase req) \<in> {200, 400, 404, 500}"
  by (auto simp: delete_cliente_def respostaErro_def respostaSucesso_def Let_def
           split: option.splits retorno.splits)

lemma delete_cliente_sem_cabecalho:
  "delete_cliente supabase (req\<lparr>authorization := h\<rparr>) = delete_cliente supabase req"
  by (simp add: delete_cliente_def)

text \<open>
  Claim C1, evaluated on the code. DELETE /cliente/:id is documented as requiring
  authentication, and the claim promises 401 without an Authorization header and 403 with
  a bearer token of invalid signature. The route does not run \<open>autenticarToken\<close>: both
  requests delete the client and are answered with 200, where the middleware would have
  answered 401 and 403.
\<close>

theorem delete_cliente_sem_autenticacao:
  "statusCode (delete_cliente (Some exemplo_loja_cliente) exemplo_req_sem_token) = 200
   \<and> statusCode (delete_cliente (Some exemplo_loja_cliente) exemplo_req_token_invalido) = 200
   \<and> (\<exists>r. autenticarToken exemplo_jwt_verify (authorization exemplo_req_sem_token) = Responde r
          \<and> statusCode r = 401)
   \<and> (\<exists>r. autenticarToken exemplo_jwt_verify (authorization exemplo_req_token_invalido) = Responde r
          \<and> statusCode r = 403)"
proof -
  have a: "statusCode (delete_cliente (Some exemplo_loja_cliente) exemplo_req_sem_token) = 200"
    by code_simp
  have b: "statusCode (delete_cliente (Some exemplo_loja_cliente) exemplo_req_token_invalido) = 200"
    by code_simp
  have c: "\<exists>r. autenticarToken exemplo_jwt_verify (authorization exemplo_req_sem_token) = Responde r
          \<and> statusCode r = 401"
    by (simp add: autenticarToken_def extrairTokenDoHeader_def exemplo_req_sem_token_def)
  have d: "\<exists>r. autenticarToken exemplo_jwt_verify (authorization exemplo_req_token_invalido) = Responde r
          \<and> statusCode r = 403"
    by (simp add: autenticarToken_def extrairTokenDoHeader_def exemplo_req_token_invalido_def
          verificarAccessToken_def exemplo_jwt_verify_def Token_invalido_def Token_expirado_def)
  from a b c d show ?thesis by simp
qed

theorem delete_cliente_sem_autenticacao_witness:
  "statusCode (delete_cliente (Some exemplo_loja_cliente) exemplo_req_sem_token) \<noteq> 401
   \<and> statusCode (delete_cliente (Some exemplo_loja_cliente) exemplo_req_token_invalido) \<noteq> 403"
  using delete_cliente_sem_autenticacao by simp

subsection \<open>PATCH /multas/:id/pagar\<close>

text \<open>The two loops as one pass over the list of combinations.\<close>

fun varrer :: "loja \<Rightarrow> string \<Rightarrow> (objeto \<times> string) list \<Rightarrow> string option \<Rightarrow> resposta + string option" where
  "varrer db ident [] u = Inr u"
| "varrer db ident ((p, k) # ts) u =
     (case multa_update db p k ident of
        Retorno d None \<Rightarrow>
          (case d of
             None \<Rightarrow> varrer db ident ts u
           | Some [] \<Rightarrow> varrer db ident ts u
           | Some (linha # outras) \<Rightarrow>
               Inl (respostaSucesso 200 ''Multa marcada como paga'' (JObj linha)))
      | Retorno d (Some e) \<Rightarrow>
          if isSchemaColumnError (Some e) then varrer db ident ts (Some e)
          else Inl (respostaErro 500 ''Erro ao marcar multa como paga'' (Some e)))"

lemma tentar_chaves_varrer:
  "tentar_chaves db p ident ks u = varrer db ident (map (Pair p) ks) u"
  by (induction ks arbitrary: u) (auto split: retorno.splits option.splits list.splits)

lemma varrer_append:
  "varrer db ident (ts @ ts') u =
     (case varrer db ident ts u of Inl r \<Rightarrow> Inl r | Inr u' \<Rightarrow> varrer db ident ts' u')"
  by (induction ts arbitrary: u) (auto split: retorno.splits option.splits list.splits)

lemma tentar_updates_varrer:
  "tentar_updates db ident ups u = varrer db ident (List.product ups keysParaTentar) u"
  by (induction ups arbitrary: u) (auto simp: tentar_chaves_varrer varrer_append split: sum.splits)

lemma varrer_sem_efeito_passo:
  "sem_efeito (multa_update db p k ident) \<Longrightarrow>
   \<exists>u'. varrer db ident ((p, k) # ts) u = varrer db ident ts u'"
  by (cases "multa_update db p k ident")
     (auto simp: sem_efeito_def split: option.splits list.splits)

lemma varrer_sucesso:
  assumes "i < length ts"
    and "\<forall>j<i. sem_efeito (multa_update db (fst (ts ! j)) (snd (ts ! j)) ident)"
    and "multa_update db (fst (ts ! i)) (snd (ts ! i)) ident = Retorno (Some (linha # outras)) None"
  shows "varrer db ident ts u = Inl (respostaSucesso 200 ''Multa marcada como paga'' (JObj linha))"
  using assms
proof (induction ts arbitrary: i u)
  case Nil
  then show ?case by simp
next
  case (Cons t ts)
  obtain p k where t: "t = (p, k)" by (cases t)
  show ?case
  proof (cases i)
    case 0
    with Cons.prems t show ?thesis by simp
  next
    case (Suc n)
    from Cons.prems(2) Suc t have "sem_efeito (multa_update db p k ident)" by force
    then obtain u' where step: "varrer db ident ((p, k) # ts) u = varrer db ident ts u'"
      using varrer_sem_efeito_passo by blast
    have "varrer db ident ts u' = Inl (respostaSucesso 200 ''Multa marcada como paga'' (JObj linha))"
    proof (rule Cons.IH [of n])
      show "n < length ts" using Cons.prems(1) Suc by simp
      show "\<forall>j<n. sem_efeito (multa_update db (fst (ts ! j)) (snd (ts ! j)) ident)"
        using Cons.prems(2) Suc by force
      show "multa_update db (fst (ts ! n)) (snd (ts ! n)) ident = Retorno (Some (linha # outras)) None"
        using Cons.prems(3) Suc by simp
    qed
    with step t show ?thesis by simp
  qed
qed

lemma varrer_erro:
  assumes "i < length ts"
    and "\<forall>j<i. sem_efeito (multa_update db (fst (ts ! j)) (snd (ts ! j)) ident)"
    and "rerror (multa_update db (fst (ts ! i)) (snd (ts ! i)) ident) = Some e"
    and "\<not> isSchemaColumnError (Some e)"
  shows "varrer db ident ts u = Inl (respostaErro 500 ''Erro ao marcar multa como paga'' (Some e))"
  using assms
proof (induction ts arbitrary: i u)
  case Nil
  then show ?case by simp
next
  case (Cons t ts)
  obtain p k where t: "t = (p, k)" by (cases t)
  show ?case
  proof (cases i)
    case 0
    with Cons.prems t show ?thesis
      by (cases "multa_update db p k ident") auto
  next
    case (Suc n)
    from Cons.prems(2) Suc t have "sem_efeito (multa_update db p k ident)" by force
    then obtain u' where step: "varrer db ident ((p, k) # ts) u = varrer db ident ts u'"
      using varrer_sem_efeito_passo by blast
    have "varrer db ident ts u' = Inl (respostaErro 500 ''Erro ao marcar multa como paga'' (Some e))"
    proof (rule Cons.IH [of n])
      show "n < length ts" using Cons.prems(1) Suc by simp
      show "\<forall>j<n. sem_efeito (multa_update db (fst (ts ! j)) (snd (ts ! j)) ident)"
        using Cons.prems(2) Suc by force
      show "rerror (multa_update db (fst (ts ! n)) (snd (ts ! n)) ident) = Some e"
        using Cons.prems(3) Suc by simp
      show "\<not> isSchemaColumnError (Some e)" by (rule Cons.prems(4))
    qed
    with step t show ?thesis by simp
  qed
qed

lemma varrer_nenhuma_linha:
  assumes "\<forall>i<length ts. rerror (multa_update db (fst (ts ! i)) (snd (ts ! i)) ident) = None
             \<and> (rdata (multa_update db (fst (ts ! i)) (snd (ts ! i)) ident) = None
                \<or> rdata (multa_update db (fst (ts ! i)) (snd (ts ! i)) ident) = Some [])"
  shows "varrer db ident ts u = Inr u"
  using assms
proof (induction ts arbitrary: u)
  case Nil
  then show ?case by simp
next
  case (Cons t ts)
  obtain p k where t: "t = (p, k)" by (cases t)
  from Cons.prems t have h: "rerror (multa_update db p k ident) = None
       \<and> (rdata (multa_update db p k ident) = None \<or> rdata (multa_update db p k ident) = Some [])"
    by force
  have "\<forall>i<length ts. rerror (multa_update db (fst (ts ! i)) (snd (ts ! i)) ident) = None
             \<and> (rdata (multa_update db (fst (ts ! i)) (snd (ts ! i)) ident) = None
                \<or> rdata (multa_update db (fst (ts ! i)) (snd (ts ! i)) ident) = Some [])"
    using Cons.prems by force
  then have "varrer db ident ts u = Inr u" by (rule Cons.IH)
  with h t show ?case
    by (cases "multa_update db p k ident") auto
qed


lemma tentativas_lista:
  "tentativas dataBase =
     [([(''DataPagamento'', JStr dataBase), (''Status'', JStr ''paga'')], ''MultaID''),
      ([(''DataPagamento'', JStr dataBase), (''Status'', JStr ''paga'')], ''multa_id''),
      ([(''DataPagamento'', JStr dataBase), (''Status'', JStr ''paga'')], ''id''),
      ([(''DataPagamento'', JStr dataBase), (''Status'', JStr ''paga'')], ''ID''),
      ([(''data_pagamento'', JStr dataBase), (''status'', JStr ''paga'')], ''MultaID''),
      ([(''data_pagamento'', JStr dataBase), (''status'', JStr ''paga'')], ''multa_id''),
      ([(''data_pagamento'', JStr dataBase), (''status'', JStr ''paga'')], ''id''),
      ([(''data_pagamento'', JStr dataBase), (''status'', JStr ''paga'')], ''ID'')]"
  by (simp add: tentativas_def updatesParaTentar_def keysParaTentar_def)

lemma length_tentativas: "length (tentativas dataBase) = 8"
  by (simp add: tentativas_lista)

lemma resposta_tentativa_alt:
  "resposta_tentativa db ident dataBase i =
     multa_update db (fst (tentativas dataBase ! i)) (snd (tentativas dataBase ! i)) ident"
  by (simp add: resposta_tentativa_def split: prod.splits)

lemma formatarData_Inr: "formatarData dp = Inr dataBase \<Longrightarrow> validarData dp \<and> dp \<noteq> []"
  by (auto simp: formatarData_def validarData_def split: if_splits)

lemma patch_multa_pagar_varrer:
  assumes "params_id req \<noteq> []" "\<not> isNaN (params_id req)"
    and "campo (body req) ''DataPagamento'' = JStr dp" "formatarData dp = Inr dataBase"
  shows "patch_multa_pagar (Some db) req =
           (case varrer db (params_id req) (tentativas dataBase) None of
              Inl r \<Rightarrow> r
            | Inr (Some e) \<Rightarrow> respostaErro 500 ''Erro ao marcar multa como paga'' (Some e)
            | Inr None \<Rightarrow> respostaErro 404 (''Multa n'' @ [CHR 0xE3] @ ''o encontrada'') None)"
  using assms formatarData_Inr [OF assms(4)]
  by (simp add: patch_multa_pagar_def validarData_js_def tentar_updates_varrer tentativas_def)

lemma patch_multa_pagar_sem_loja:
  assumes "params_id req \<noteq> []" "\<not> isNaN (params_id req)"
    and "campo (body req) ''DataPagamento'' = JStr dp" "formatarData dp = Inr dataBase"
  shows "patch_multa_pagar None req = respostaErro 500 ''Erro ao processar pagamento'' (Some erro_supabase_nulo)"
  using assms formatarData_Inr [OF assms(4)]
  by (simp add: patch_multa_pagar_def validarData_js_def)

text \<open>
  Claim C5. For a PATCH /multas/:id/pagar request with a numeric id and a valid
  DD/MM/YYYY payment date, the handler goes through the eight combinations of the two
  payment-field naming schemes with the four id-column names, in the order listed. The
  first answer without error that carries a row gives the status 200 with that row as the
  data of the body; the first error that is not schema-shaped gives the status 500 with the
  message of that error in the field \<^verbatim>\<open>error\<close> of the body (\<^verbatim>\<open>respostaErro\<close> leaves the field out
  when the message is the empty string); when every combination is answered without error
  and without a row, the status is 404. (With no store client configured, the first attempt
  throws and the status is 500 with the message of that \<^verbatim>\<open>TypeError\<close>.)
\<close>

theorem patch_multa_pagar_combinacoes:
  assumes "params_id req \<noteq> []" "\<not> isNaN (params_id req)"
    and "campo (body req) ''DataPagamento'' = JStr dp" "formatarData dp = Inr dataBase"
  shows "tentativas dataBase =
           [([(''DataPagamento'', JStr dataBase), (''Status'', JStr ''paga'')], ''MultaID''),
            ([(''DataPagamento'', JStr dataBase), (''Status'', JStr ''paga'')], ''multa_id''),
            ([(''DataPagamento'', JStr dataBase), (''Status'', JStr ''paga'')], ''id''),
            ([(''DataPagamento'', JStr dataBase), (''Status'', JStr ''paga'')], ''ID''),
            ([(''data_pagamento'', JStr dataBase), (''status'', JStr ''paga'')], ''MultaID''),
            ([(''data_pagamento'', JStr dataBase), (''status'', JStr ''paga'')], ''multa_id''),
            ([(''data_pagamento'', JStr dataBase), (''status'', JStr ''paga'')], ''id''),
            ([(''data_pagamento'', JStr dataBase), (''status'', JStr ''paga'')], ''ID'')]
       \<and> (\<forall>i<8. (\<forall>j<i. sem_efeito (resposta_tentativa db (params_id req) dataBase j)) \<longrightarrow>
              (\<forall>linha outras.
                  resposta_tentativa db (params_id req) dataBase i = Retorno (Some (linha # outras)) None \<longrightarrow>
                  statusCode (patch_multa_pagar (Some db) req) = 200
                  \<and> message (patch_multa_pagar (Some db) req) = ''Multa marcada como paga''
                  \<and> error (patch_multa_pagar (Some db) req) = None
                  \<and> dados (patch_multa_pagar (Some db) req) = Some (JObj linha))
            \<and> (\<forall>e. rerror (resposta_tentativa db (params_id req) dataBase i) = Some e
                     \<and> \<not> isSchemaColumnError (Some e) \<longrightarrow>
                  statusCode (patch_multa_pagar (Some db) req) = 500
                  \<and> message (patch_multa_pagar (Some db) req) = ''Erro ao marcar multa como paga''
                  \<and> error (patch_multa_pagar (Some db) req) = (if e = [] then None else Some e)
                  \<and> dados (patch_multa_pagar (Some db) req) = None))
       \<and> ((\<forall>i<8. rerror (resposta_tentativa db (params_id req) dataBase i) = None
                \<and> (rdata (resposta_tentativa db (params_id req) dataBase i) = None
                   \<or> rdata (resposta_tentativa db (params_id req) dataBase i) = Some [])) \<longrightarrow>
            statusCode (patch_multa_pagar (Some db) req) = 404
            \<and> message (patch_multa_pagar (Some db) req) = ''Multa n'' @ [CHR 0xE3] @ ''o encontrada''
            \<and> error (patch_multa_pagar (Some db) req) = None
            \<and> dados (patch_multa_pagar (Some db) req) = None)
       \<and> statusCode (patch_multa_pagar None req) = 500
       \<and> message (patch_multa_pagar None req) = ''Erro ao processar pagamento''
       \<and> error (patch_multa_pagar None req) = Some erro_supabase_nulo"
proof -
  note eq = patch_multa_pagar_varrer [OF assms, of db]
  have ordem: "tentativas dataBase =
           [([(''DataPagamento'', JStr dataBase), (''Status'', JStr ''paga'')], ''MultaID''),
            ([(''DataPagamento'', JStr dataBase), (''Status'', JStr ''paga'')], ''multa_id''),
            ([(''DataPagamento'', JStr dataBase), (''Status'', JStr ''paga'')], ''id''),
            ([(''DataPagamento'', JStr dataBase), (''Status'', JStr ''paga'')], ''ID''),
            ([(''data_pagamento'', JStr dataBase), (''status'', JStr ''paga'')], ''MultaID''),
            ([(''data_pagamento'', JStr dataBase), (''status'', JStr ''paga'')], ''multa_id''),
            ([(''data_pagamento'', JStr dataBase), (''status'', JStr ''paga'')], ''id''),
            ([(''data_pagamento'', JStr dataBase), (''status'', JStr ''paga'')], ''ID'')]"
    by (rule tentativas_lista)
  have sucesso: "statusCode (patch_multa_pagar (Some db) req) = 200
                  \<and> message (patch_multa_pagar (Some db) req) = ''Multa marcada como paga''
                  \<and> error (patch_multa_pagar (Some db) req) = None
                  \<and> dados (patch_multa_pagar (Some db) req) = Some (JObj linha)"
    if "i < 8" "\<forall>j<i. sem_efeito (resposta_tentativa db (params_id req) dataBase j)"
       "resposta_tentativa db (params_id req) dataBase i = Retorno (Some (linha # outras)) None"
    for i linha outras
  proof -
    have "varrer db (params_id req) (tentativas dataBase) None =
            Inl (respostaSucesso 200 ''Multa marcada como paga'' (JObj linha))"
      using that by (intro varrer_sucesso [where i = i and outras = outras])
        (simp_all add: length_tentativas resposta_tentativa_alt)
    with eq have "patch_multa_pagar (Some db) req =
        respostaSucesso 200 ''Multa marcada como paga'' (JObj linha)" by simp
    then show ?thesis by (simp add: respostaSucesso_def)
  qed
  have falha: "statusCode (patch_multa_pagar (Some db) req) = 500
                  \<and> message (patch_multa_pagar (Some db) req) = ''Erro ao marcar multa como paga''
                  \<and> error (patch_multa_pagar (Some db) req) = (if e = [] then None else Some e)
                  \<and> dados (patch_multa_pagar (Some db) req) = None"
    if "i < 8" "\<forall>j<i. sem_efeito (resposta_tentativa db (params_id req) dataBase j)"
       "rerror (resposta_tentativa db (params_id req) dataBase i) = Some e"
       "\<not> isSchemaColumnError (Some e)"
    for i e
  proof -
    have "varrer db (params_id req) (tentativas dataBase) None =
            Inl (respostaErro 500 ''Erro ao marcar multa como paga'' (Some e))"
      using that by (intro varrer_erro [where i = i])
        (simp_all add: length_tentativas resposta_tentativa_alt)
    with eq have "patch_multa_pagar (Some db) req =
        respostaErro 500 ''Erro ao marcar multa como paga'' (Some e)" by simp
    then show ?thesis by (simp add: respostaErro_def)
  qed
  have nenhuma: "statusCode (patch_multa_pagar (Some db) req) = 404
            \<and> message (patch_multa_pagar (Some db) req) = ''Multa n'' @ [CHR 0xE3] @ ''o encontrada''
            \<and> error (patch_multa_pagar (Some db) req) = None
            \<and> dados (patch_multa_pagar (Some db) req) = None"
    if "\<forall>i<8. rerror (resposta_tentativa db (params_id req) dataBase i) = None
                \<and> (rdata (resposta_tentativa db (params_id req) dataBase i) = None
                   \<or> rdata (resposta_tentativa db (params_id req) dataBase i) = Some [])"
  proof -
    have "varrer db (params_id req) (tentativas dataBase) None = Inr None"
      using that by (intro varrer_nenhuma_linha)
        (simp add: length_tentativas resposta_tentativa_alt)
    with eq have "patch_multa_pagar (Some db) req =
        respostaErro 404 (''Multa n'' @ [CHR 0xE3] @ ''o encontrada'') None" by simp
    then show ?thesis by (simp add: respostaErro_def)
  qed
  have sem: "statusCode (patch_multa_pagar None req) = 500
       \<and> message (patch_multa_pagar None req) = ''Erro ao processar pagamento''
       \<and> error (patch_multa_pagar None req) = Some erro_supabase_nulo"
    by (simp add: patch_multa_pagar_sem_loja [OF assms] respostaErro_def erro_supabase_nulo_def)
  from ordem sucesso falha nenhuma sem
  show ?thesis by blast
qed

theorem patch_multa_pagar_combinacoes_witness:
  "params_id exemplo_req_pagar \<noteq> [] \<and> \<not> isNaN (params_id exemplo_req_pagar)
   \<and> campo (body exemplo_req_pagar) ''DataPagamento'' = JStr ''15/03/2024''
   \<and> formatarData ''15/03/2024'' = Inr ''2024-03-15''
   \<and> sem_efeito (resposta_tentativa exemplo_loja_multa ''7'' ''2024-03-15'' 0)
   \<and> sem_efeito (resposta_tentativa exemplo_loja_multa ''7'' ''2024-03-15'' 1)
   \<and> sem_efeito (resposta_tentativa exemplo_loja_multa ''7'' ''2024-03-15'' 2)
   \<and> sem_efeito (resposta_tentativa exemplo_loja_multa ''7'' ''2024-03-15'' 3)
   \<and> sem_efeito (resposta_tentativa exemplo_loja_multa ''7'' ''2024-03-15'' 4)
   \<and> statusCode (patch_multa_pagar (Some exemplo_loja_multa) exemplo_req_pagar) = 200
   \<and> dados (patch_multa_pagar (Some exemplo_loja_multa) exemplo_req_pagar) =
       Some (JObj [(''multa_id'', JNum 7), (''data_pagamento'', JStr ''2024-03-15''), (''status'', JStr ''paga'')])
   \<and> sem_efeito (resposta_tentativa exemplo_loja_multa_negada ''7'' ''2024-03-15'' 0)
   \<and> rerror (resposta_tentativa exemplo_loja_multa_negada ''7'' ''2024-03-15'' 1) =
       Some ''permission denied for table multa''
   \<and> \<not> isSchemaColumnError (Some ''permission denied for table multa'')
   \<and> statusCode (patch_multa_pagar (Some exemplo_loja_multa_negada) exemplo_req_pagar) = 500
   \<and> message (patch_multa_pagar (Some exemplo_loja_multa_negada) exemplo_req_pagar) =
       ''Erro ao marcar multa como paga''
   \<and> error (patch_multa_pagar (Some exemplo_loja_multa_negada) exemplo_req_pagar) =
       Some ''permission denied for table multa''
   \<and> statusCode (patch_multa_pagar (Some loja_vazia) exemplo_req_pagar) = 404"
proof -
  have h1: "params_id exemplo_req_pagar \<noteq> []" by (simp add: exemplo_req_pagar_def)
  have h2: "\<not> isNaN (params_id exemplo_req_pagar)" by code_simp
  have h3: "campo (body exemplo_req_pagar) ''DataPagamento'' = JStr ''15/03/2024''"
    by (simp add: exemplo_req_pagar_def campo_def)
  have h4: "formatarData ''15/03/2024'' = Inr ''2024-03-15''" by code_simp
  have p: "params_id exemplo_req_pagar = ''7''" by (simp add: exemplo_req_pagar_def)
  have s0: "sem_efeito (resposta_tentativa exemplo_loja_multa ''7'' ''2024-03-15'' 0)" by code_simp
  have s1: "sem_efeito (resposta_tentativa exemplo_loja_multa ''7'' ''2024-03-15'' 1)" by code_simp
  have s2: "sem_efeito (resposta_tentativa exemplo_loja_multa ''7'' ''2024-03-15'' 2)" by code_simp
  have s3: "sem_efeito (resposta_tentativa exemplo_loja_multa ''7'' ''2024-03-15'' 3)" by code_simp
  have s4: "sem_efeito (resposta_tentativa exemplo_loja_multa ''7'' ''2024-03-15'' 4)" by code_simp
  have antes: "\<forall>j<5. sem_efeito (resposta_tentativa exemplo_loja_multa ''7'' ''2024-03-15'' j)"
  proof (intro allI impI)
    fix j :: nat
    assume "j < 5"
    then consider "j = 0" | "j = 1" | "j = 2" | "j = 3" | "j = 4" by linarith
    then show "sem_efeito (resposta_tentativa exemplo_loja_multa ''7'' ''2024-03-15'' j)"
      using s0 s1 s2 s3 s4 by cases simp_all
  qed
  have r5: "resposta_tentativa exemplo_loja_multa ''7'' ''2024-03-15'' 5 =
      Retorno (Some ([(''multa_id'', JNum 7), (''data_pagamento'', JStr ''2024-03-15''), (''status'', JStr ''paga'')] # [])) None"
    by code_simp
  note t = patch_multa_pagar_combinacoes [OF h1 h2 h3 h4, unfolded p]
  have a: "statusCode (patch_multa_pagar (Some exemplo_loja_multa) exemplo_req_pagar) = 200
      \<and> dados (patch_multa_pagar (Some exemplo_loja_multa) exemplo_req_pagar) =
       Some (JObj [(''multa_id'', JNum 7), (''data_pagamento'', JStr ''2024-03-15''), (''status'', JStr ''paga'')])"
    using t [of exemplo_loja_multa, THEN conjunct2, THEN conjunct1, THEN spec, of 5] antes r5
    by simp
  have n0: "sem_efeito (resposta_tentativa exemplo_loja_multa_negada ''7'' ''2024-03-15'' 0)"
    by code_simp
  have n1: "rerror (resposta_tentativa exemplo_loja_multa_negada ''7'' ''2024-03-15'' 1) =
       Some ''permission denied for table multa''"
    by code_simp
  have n2: "\<not> isSchemaColumnError (Some ''permission denied for table multa'')" by code_simp
  have b: "statusCode (patch_multa_pagar (Some exemplo_loja_multa_negada) exemplo_req_pagar) = 500
      \<and> message (patch_multa_pagar (Some exemplo_loja_multa_negada) exemplo_req_pagar) =
          ''Erro ao marcar multa como paga''
      \<and> error (patch_multa_pagar (Some exemplo_loja_multa_negada) exemplo_req_pagar) =
          Some ''permission denied for table multa''"
    using t [of exemplo_loja_multa_negada, THEN conjunct2, THEN conjunct1, THEN spec, of 1] n0 n1 n2
    by simp
  have v: "\<forall>i<8. rerror (resposta_tentativa loja_vazia ''7'' ''2024-03-15'' i) = None
                \<and> (rdata (resposta_tentativa loja_vazia ''7'' ''2024-03-15'' i) = None
                   \<or> rdata (resposta_tentativa loja_vazia ''7'' ''2024-03-15'' i) = Some [])"
    by (simp add: resposta_tentativa_def loja_vazia_def split: prod.splits)
  have c: "statusCode (patch_multa_pagar (Some loja_vazia) exemplo_req_pagar) = 404"
    using t [of loja_vazia, THEN conjunct2, THEN conjunct2, THEN conjunct1] v by simp
  from h1 h2 h3 h4 s0 s1 s2 s3 s4 a b c n0 n1 n2 show ?thesis by simp
qed

subsection \<open>The status filter of the fine query engine\<close>

lemma filtrar_status_outro:
  assumes "toLowerCase (String_de js status) \<noteq> ''pendente''"
    and "toLowerCase (String_de js status) \<noteq> ''paga''"
    and "toLowerCase (String_de js status) \<noteq> ''pago''"
  shows "filtrar_status js status ms = ms"
  using assms by (simp add: filtrar_status_def Let_def)

lemma filtrar_status_ausente: "filtrar_status js JUndefined ms = ms"
  by (simp add: filtrar_status_def)

lemma obterMultasFiltradas_status_outro:
  assumes "toLowerCase (String_de js status) \<noteq> ''pendente''"
    and "toLowerCase (String_de js status) \<noteq> ''paga''"
    and "toLowerCase (String_de js status) \<noteq> ''pago''"
  shows "obterMultasFiltradas js supabase (f\<lparr>f_status := status\<rparr>) =
         obterMultasFiltradas js supabase (f\<lparr>f_status := JUndefined\<rparr>)"
  by (simp add: obterMultasFiltradas_def filtrar_status_outro [OF assms] filtrar_status_ausente
        cong: option.case_cong)

lemma length_inserir: "length (inserir cmp x xs) = Suc (length xs)"
  by (induction xs) auto

lemma length_ordenar: "length (ordenar cmp xs) = length xs"
  by (induction xs) (auto simp: length_inserir)

lemma length_enriquecer:
  assumes "enriquecerMultas db ms = Inr es"
  shows "length es = length ms"
proof (cases "ms = []")
  case True
  with assms show ?thesis by (simp add: enriquecerMultas_def)
next
  case ne: False
  define ids where "ids = unicos (filter truthy (map (\<lambda>m. campo m ''ReservaID'') ms))"
  show ?thesis
  proof (cases "ids = []")
    case True
    with assms ne show ?thesis by (simp add: enriquecerMultas_def ids_def [symmetric])
  next
    case False
    define reservas where "reservas = linhas (reservas_in db ids)"
    define respClientes where "respClientes =
      (if unicos (filter truthy (map (\<lambda>r. campo r ''ClienteID'') reservas)) \<noteq> []
       then cliente_in db (unicos (filter truthy (map (\<lambda>r. campo r ''ClienteID'') reservas)))
       else Retorno (Some []) None)"
    define respLivros where "respLivros =
      (if unicos (filter truthy (map (\<lambda>r. campo r ''LivroID'') reservas)) \<noteq> []
       then livro_in db (unicos (filter truthy (map (\<lambda>r. campo r ''LivroID'') reservas)))
       else Retorno (Some []) None)"
    have eq: "enriquecerMultas db ms =
       (case rerror (reservas_in db ids) of
          Some e \<Rightarrow> Inl e
        | None \<Rightarrow>
            (case rerror respClientes of
               Some e \<Rightarrow> Inl e
             | None \<Rightarrow>
                 (case rerror respLivros of
                    Some e \<Rightarrow> Inl e
                  | None \<Rightarrow> Inr (map (anexar_reserva reservas (linhas respClientes) (linhas respLivros)) ms))))"
      unfolding enriquecerMultas_def Let_def ids_def [symmetric] reservas_def [symmetric]
        respClientes_def [symmetric] respLivros_def [symmetric]
      using ne False by simp
    from assms show ?thesis
      unfolding eq by (auto split: option.splits)
  qed
qed

lemma String_de_JStr: "String_de js (JStr s) = s"
  by (simp add: String_de_def)

lemma filtrar_vencidas_ausente: "filtrar_vencidas js JUndefined ms = ms"
  by (simp add: filtrar_vencidas_def)

lemma length_ordenar_e_enriquecer:
  "length (ordenar_e_enriquecer js db ms) = length ms"
proof (cases "enriquecerMultas db (ordenar (comparar_multas js) ms)")
  case (Inl e)
  then show ?thesis by (simp add: ordenar_e_enriquecer_def length_ordenar)
next
  case (Inr es)
  from length_enriquecer [OF Inr] Inr show ?thesis
    by (simp add: ordenar_e_enriquecer_def length_ordenar)
qed

lemma obterMultasFiltradas_sem_filtros:
  assumes "multa_select db = Retorno (Some rows) None"
    and "\<not> truthy (f_clienteId f)" "\<not> truthy (f_reservaId f)" "\<not> truthy (f_multaId f)"
    and "\<not> truthy (f_vencidas f)" "\<not> truthy (f_status f)"
  shows "\<exists>ms. obterMultasFiltradas js (Some db) f = Inr ms \<and> length ms = length rows"
  using assms
  by (simp add: obterMultasFiltradas_def linhas_def filtrar_status_def filtrar_vencidas_def
        filtrar_cliente_def filtrar_reservaId_def filtrar_multaId_def length_ordenar_e_enriquecer)


lemma campo_sem_parametro:
  "campo (sem_parametro k q) k' = (if k' = k then JUndefined else campo q k')"
  by (induction q) (auto simp: campo_def sem_parametro_def)

lemma get_multas_status_outro:
  assumes "campo (query req) ''status'' = JStr s"
    and "toLowerCase s \<noteq> ''pendente''" "toLowerCase s \<noteq> ''paga''" "toLowerCase s \<noteq> ''pago''"
  shows "get_multas js supabase req =
         get_multas js supabase (req\<lparr>query := sem_parametro ''status'' (query req)\<rparr>)"
proof -
  let ?f = "\<lparr>f_clienteId = campo (query req) ''clienteId'',
             f_reservaId = campo (query req) ''reservaId'',
             f_status = JUndefined,
             f_vencidas = (if campo (query req) ''vencidas'' \<noteq> JUndefined
                           then JBool (toLowerCase (String_de js (campo (query req) ''vencidas'')) = ''true'')
                           else JUndefined),
             f_multaId = campo (query req) ''multaId''\<rparr>"
  have "obterMultasFiltradas js supabase (?f\<lparr>f_status := JStr s\<rparr>) =
        obterMultasFiltradas js supabase (?f\<lparr>f_status := JUndefined\<rparr>)"
    by (rule obterMultasFiltradas_status_outro) (simp_all add: String_de_JStr assms)
  then have eq: "obterMultasFiltradas js supabase (?f\<lparr>f_status := JStr s\<rparr>) =
        obterMultasFiltradas js supabase ?f" by simp
  show ?thesis
  proof (cases "s = []")
    case True
    with assms(1) show ?thesis
      by (simp add: get_multas_def campo_sem_parametro Let_def)
  next
    case False
    with assms(1) eq show ?thesis
      by (simp add: get_multas_def campo_sem_parametro Let_def String_de_JStr cong: if_cong)
  qed
qed

lemma get_multas_so_status:
  assumes "query req = [(''status'', JStr s)]"
    and "toLowerCase s \<noteq> ''pendente''" "toLowerCase s \<noteq> ''paga''" "toLowerCase s \<noteq> ''pago''"
    and "multa_select db = Retorno (Some rows) None"
  shows "\<exists>ms. get_multas js (Some db) req = respostaSucesso 200 ''Multas encontradas'' (JArr (map JObj ms))
            \<and> length ms = length rows"
proof -
  have st: "campo (query req) ''status'' = JStr s" using assms(1) by (simp add: campo_def)
  let ?f = "\<lparr>f_clienteId = JUndefined, f_reservaId = JUndefined, f_status = JUndefined,
             f_vencidas = JUndefined, f_multaId = JUndefined\<rparr>"
  have "get_multas js (Some db) (req\<lparr>query := sem_parametro ''status'' (query req)\<rparr>) =
        (case obterMultasFiltradas js (Some db) ?f of
           Inr multas \<Rightarrow> respostaSucesso 200 ''Multas encontradas'' (JArr (map JObj multas))
         | Inl e \<Rightarrow> respostaErro 500 ''Erro ao buscar multas'' (Some e))"
    using assms(1) by (simp add: get_multas_def sem_parametro_def campo_def)
  moreover obtain ms where "obterMultasFiltradas js (Some db) ?f = Inr ms" "length ms = length rows"
    using obterMultasFiltradas_sem_filtros [OF assms(5), of ?f js] by auto
  ultimately show ?thesis
    using get_multas_status_outro [OF st assms(2-4), of js "Some db"] by auto
qed

text \<open>
  Claim C8. In the fine query engine a status value whose lowercase form is neither
  \<^verbatim>\<open>pendente\<close> nor \<^verbatim>\<open>paga\<close> nor \<^verbatim>\<open>pago\<close> filters nothing: \<open>obterMultasFiltradas\<close> returns what
  it returns without a status, whatever the other filters; GET /multas with such a status
  answers as the same request without the parameter; and when the status is the only
  parameter and the store hands over the table, the answer is 200 with as many fines as
  the table has (not 400, and not the cancelled fines alone).
\<close>

theorem status_fora_das_classes_nao_filtra:
  assumes "toLowerCase s \<noteq> ''pendente''" "toLowerCase s \<noteq> ''paga''" "toLowerCase s \<noteq> ''pago''"
  shows "obterMultasFiltradas js supabase (f\<lparr>f_status := JStr s\<rparr>) =
           obterMultasFiltradas js supabase (f\<lparr>f_status := JUndefined\<rparr>)
       \<and> (campo (query req) ''status'' = JStr s \<longrightarrow>
            get_multas js supabase req =
              get_multas js supabase (req\<lparr>query := sem_parametro ''status'' (query req)\<rparr>))
       \<and> (query req = [(''status'', JStr s)] \<and> multa_select db = Retorno (Some rows) None \<longrightarrow>
            (\<exists>ms. get_multas js (Some db) req =
                     respostaSucesso 200 ''Multas encontradas'' (JArr (map JObj ms))
                 \<and> length ms = length rows))"
proof -
  have a: "obterMultasFiltradas js supabase (f\<lparr>f_status := JStr s\<rparr>) =
           obterMultasFiltradas js supabase (f\<lparr>f_status := JUndefined\<rparr>)"
    by (rule obterMultasFiltradas_status_outro) (simp_all add: String_de_JStr assms)
  from a get_multas_status_outro [OF _ assms] get_multas_so_status [OF _ assms]
  show ?thesis by blast
qed

theorem status_fora_das_classes_nao_filtra_witness:
  "toLowerCase ''cancelada'' \<noteq> ''pendente'' \<and> toLowerCase ''cancelada'' \<noteq> ''paga''
   \<and> toLowerCase ''cancelada'' \<noteq> ''pago''
   \<and> (\<exists>ms. get_multas exemplo_js (Some exemplo_loja_multas) (exemplo_req_multas ''cancelada'') =
              respostaSucesso 200 ''Multas encontradas'' (JArr (map JObj ms)) \<and> length ms = 3)
   \<and> (\<exists>ms. get_multas exemplo_js (Some exemplo_loja_multas) (exemplo_req_multas ''pendente'') =
              respostaSucesso 200 ''Multas encontradas'' (JArr (map JObj ms)) \<and> length ms = 2)"
proof -
  have h1: "toLowerCase ''cancelada'' \<noteq> ''pendente''" by code_simp
  have h2: "toLowerCase ''cancelada'' \<noteq> ''paga''" by code_simp
  have h3: "toLowerCase ''cancelada'' \<noteq> ''pago''" by code_simp
  have q: "query (exemplo_req_multas ''cancelada'') = [(''status'', JStr ''cancelada'')]"
    by (simp add: exemplo_req_multas_def)
  have m: "multa_select exemplo_loja_multas = Retorno (Some
         [[(''MultaID'', JNum 1), (''Status'', JStr ''pendente''), (''DataPagamento'', JNull)],
          [(''MultaID'', JNum 2), (''Status'', JStr ''paga''), (''DataPagamento'', JStr ''2024-05-02'')],
          [(''MultaID'', JNum 3), (''Status'', JStr ''cancelada''), (''DataPagamento'', JNull)]])
         None"
    by (simp add: exemplo_loja_multas_def)
  have c: "\<exists>ms. get_multas exemplo_js (Some exemplo_loja_multas) (exemplo_req_multas ''cancelada'') =
              respostaSucesso 200 ''Multas encontradas'' (JArr (map JObj ms)) \<and> length ms = 3"
    using status_fora_das_classes_nao_filtra [OF h1 h2 h3,
            where req = "exemplo_req_multas ''cancelada''" and db = exemplo_loja_multas
              and js = exemplo_js and rows = "[[(''MultaID'', JNum 1), (''Status'', JStr ''pendente''), (''DataPagamento'', JNull)],
          [(''MultaID'', JNum 2), (''Status'', JStr ''paga''), (''DataPagamento'', JStr ''2024-05-02'')],
          [(''MultaID'', JNum 3), (''Status'', JStr ''cancelada''), (''DataPagamento'', JNull)]]",
            THEN conjunct2, THEN conjunct2] q m
    by (simp add: numeral_3_eq_3)
  have p: "get_multas exemplo_js (Some exemplo_loja_multas) (exemplo_req_multas ''pendente'') =
              respostaSucesso 200 ''Multas encontradas''
                (JArr (map JObj
                  [[(''MultaID'', JNum 1), (''Status'', JStr ''pendente''), (''DataPagamento'', JNull),
                    (''ReservaID'', JNull), (''ClienteID'', JNull), (''Valor'', JNull),
                    (''DataVencimento'', JNull)],
                   [(''MultaID'', JNum 3), (''Status'', JStr ''cancelada''), (''DataPagamento'', JNull),
                    (''ReservaID'', JNull), (''ClienteID'', JNull), (''Valor'', JNull),
                    (''DataVencimento'', JNull)]]))"
    by code_simp
  have "\<exists>ms. get_multas exemplo_js (Some exemplo_loja_multas) (exemplo_req_multas ''pendente'') =
              respostaSucesso 200 ''Multas encontradas'' (JArr (map JObj ms)) \<and> length ms = 2"
    unfolding p by (intro exI conjI, rule refl) simp
  with h1 h2 h3 c show ?thesis by simp
qed

subsection \<open>validarData and the years 0 to 99\<close>

text \<open>
  The day number of the first day of a year grows by the length of the year, so the year
  read back from a day number is the one whose days enclose it.
\<close>

lemma div_menos_um:
  fixes x k :: int
  assumes "0 < k"
  shows "(x - 1) div k = (if x mod k = 0 then x div k - 1 else x div k)"
proof (cases "x mod k = 0")
  case True
  have e: "x - 1 = k * (x div k - 1) + (k - 1)"
    using True mult_div_mod_eq [of k x] by (simp add: algebra_simps)
  have "(x - 1) div k = x div k - 1"
    by (rule int_div_pos_eq [OF e]) (use assms in simp_all)
  with True show ?thesis by simp
next
  case False
  have "0 \<le> x mod k" "x mod k < k" using assms by simp_all
  with False have r: "0 \<le> x mod k - 1" "x mod k - 1 < k" by simp_all
  have e: "x - 1 = k * (x div k) + (x mod k - 1)"
    using mult_div_mod_eq [of k x] by simp
  have "(x - 1) div k = x div k"
    by (rule int_div_pos_eq [OF e r])
  with False show ?thesis by simp
qed

lemma mod_menos_multiplo:
  fixes y k c :: int
  shows "(y - c * k) mod k = y mod k"
proof -
  have "(y - c * k) mod k = (y + (- c) * k) mod k" by simp
  also have "\<dots> = y mod k" by (rule mod_mult_self1)
  finally show ?thesis .
qed

lemma div_menos_multiplo:
  fixes y k c :: int
  assumes "k \<noteq> 0"
  shows "(y - c * k) div k = y div k - c"
proof -
  have "(y - c * k) div k = (y + (- c) * k) div k" by simp
  also have "\<dots> = (- c) + y div k" using assms by (rule div_mult_self1)
  finally show ?thesis by simp
qed

text \<open>The three quotients of \<open>DayFromYear\<close>, in terms of the quotients of the year itself.\<close>

lemma q4: "((y::int) - 1969) div 4 = (if y mod 4 = 0 then y div 4 - 493 else y div 4 - 492)"
proof -
  have "(y - 1969) div 4 = ((y - 492 * 4) - 1) div 4" by simp
  also have "\<dots> = (if (y - 492 * 4) mod 4 = 0 then (y - 492 * 4) div 4 - 1 else (y - 492 * 4) div 4)"
    by (rule div_menos_um) simp
  finally show ?thesis
    by (simp only: mod_menos_multiplo div_menos_multiplo [of 4, simplified]) simp
qed

lemma q100: "((y::int) - 1901) div 100 = (if y mod 100 = 0 then y div 100 - 20 else y div 100 - 19)"
proof -
  have "(y - 1901) div 100 = ((y - 19 * 100) - 1) div 100" by simp
  also have "\<dots> = (if (y - 19 * 100) mod 100 = 0 then (y - 19 * 100) div 100 - 1 else (y - 19 * 100) div 100)"
    by (rule div_menos_um) simp
  finally show ?thesis
    by (simp only: mod_menos_multiplo div_menos_multiplo [of 100, simplified]) simp
qed

lemma q400: "((y::int) - 1601) div 400 = (if y mod 400 = 0 then y div 400 - 5 else y div 400 - 4)"
proof -
  have "(y - 1601) div 400 = ((y - 4 * 400) - 1) div 400" by simp
  also have "\<dots> = (if (y - 4 * 400) mod 400 = 0 then (y - 4 * 400) div 400 - 1 else (y - 4 * 400) div 400)"
    by (rule div_menos_um) simp
  finally show ?thesis
    by (simp only: mod_menos_multiplo div_menos_multiplo [of 400, simplified]) simp
qed


lemma mod_4_de_100: "(y::int) mod 100 = 0 \<Longrightarrow> y mod 4 = 0"
proof -
  assume "y mod 100 = 0"
  then have "100 dvd y" by (simp add: mod_eq_0_iff_dvd)
  moreover have "(4::int) dvd 100" by simp
  ultimately have "4 dvd y" by (rule dvd_trans [rotated])
  then show ?thesis by (simp add: mod_eq_0_iff_dvd)
qed

lemma mod_100_de_400: "(y::int) mod 400 = 0 \<Longrightarrow> y mod 100 = 0"
proof -
  assume "y mod 400 = 0"
  then have "400 dvd y" by (simp add: mod_eq_0_iff_dvd)
  moreover have "(100::int) dvd 400" by simp
  ultimately have "100 dvd y" by (rule dvd_trans [rotated])
  then show ?thesis by (simp add: mod_eq_0_iff_dvd)
qed

lemma DayFromYear_passo: "DayFromYear (y + 1) = DayFromYear y + DaysInYear y"
proof -
  define A where "A = y div 4"
  define B where "B = y div 100"
  define C where "C = y div 400"
  have s4: "(y + 1 - 1969) div 4 = A - 492"
    using div_menos_multiplo [of 4 y 492] by (simp add: A_def)
  have s100: "(y + 1 - 1901) div 100 = B - 19"
    using div_menos_multiplo [of 100 y 19] by (simp add: B_def)
  have s400: "(y + 1 - 1601) div 400 = C - 4"
    using div_menos_multiplo [of 400 y 4] by (simp add: C_def)
  have seguinte: "DayFromYear (y + 1) = 365 * (y + 1 - 1970) + (A - 492) - (B - 19) + (C - 4)"
    unfolding DayFromYear_def s4 s100 s400 ..
  have r4: "(y - 1969) div 4 = (if y mod 4 = 0 then A - 493 else A - 492)"
    unfolding A_def by (rule q4)
  have r100: "(y - 1901) div 100 = (if y mod 100 = 0 then B - 20 else B - 19)"
    unfolding B_def by (rule q100)
  have r400: "(y - 1601) div 400 = (if y mod 400 = 0 then C - 5 else C - 4)"
    unfolding C_def by (rule q400)
  have este: "DayFromYear y =
      365 * (y - 1970) + (if y mod 4 = 0 then A - 493 else A - 492)
        - (if y mod 100 = 0 then B - 20 else B - 19) + (if y mod 400 = 0 then C - 5 else C - 4)"
    unfolding DayFromYear_def r4 r100 r400 ..
  have passo: "365 * (y + 1 - 1970) = 365 * (y - 1970) + 365" by simp
  show ?thesis
  proof (cases "y mod 4 = 0")
    case False
    have n100: "y mod 100 \<noteq> 0"
    proof
      assume "y mod 100 = 0"
      then have "y mod 4 = 0" by (rule mod_4_de_100)
      with False show False by simp
    qed
    have n400: "y mod 400 \<noteq> 0"
    proof
      assume "y mod 400 = 0"
      then have "y mod 100 = 0" by (rule mod_100_de_400)
      with n100 show False by simp
    qed
    have "DaysInYear y = 365" using False by (simp add: DaysInYear_def)
    then show ?thesis
      unfolding seguinte este passo using False n100 n400 by simp
  next
    case m4: True
    show ?thesis
    proof (cases "y mod 100 = 0")
      case False
      have n400: "y mod 400 \<noteq> 0"
      proof
        assume "y mod 400 = 0"
        then have "y mod 100 = 0" by (rule mod_100_de_400)
        with False show False by simp
      qed
      have "DaysInYear y = 366" using m4 False by (simp add: DaysInYear_def)
      then show ?thesis
        unfolding seguinte este passo using m4 False n400 by simp
    next
      case m100: True
      show ?thesis
      proof (cases "y mod 400 = 0")
        case False
        have "DaysInYear y = 365" using m4 m100 False by (simp add: DaysInYear_def)
        then show ?thesis
          unfolding seguinte este passo using m4 m100 False by simp
      next
        case True
        have "DaysInYear y = 366" using m4 m100 True by (simp add: DaysInYear_def)
        then show ?thesis
          unfolding seguinte este passo using m4 m100 True by simp
      qed
    qed
  qed
qed

lemma DaysInYear_limites: "365 \<le> DaysInYear y" "DaysInYear y \<le> 366"
  by (simp_all add: DaysInYear_def)

lemma DayFromYear_1970: "DayFromYear 1970 = 0"
  by (simp add: DayFromYear_def)

lemma DayFromYear_acima:
  assumes "0 \<le> w"
  shows "365 * w \<le> DayFromYear (1970 + w)" and "DayFromYear (1970 + w) \<le> 366 * w"
proof -
  have "365 * w \<le> DayFromYear (1970 + w) \<and> DayFromYear (1970 + w) \<le> 366 * w"
    using assms
  proof (induction w rule: int_ge_induct)
    case base
    then show ?case by (simp add: DayFromYear_1970)
  next
    case (step i)
    have e: "DayFromYear (1970 + (i + 1)) = DayFromYear (1970 + i) + DaysInYear (1970 + i)"
      using DayFromYear_passo [of "1970 + i"] by (simp add: add.assoc)
    from step.IH DaysInYear_limites [of "1970 + i"] show ?case
      unfolding e by (simp add: distrib_left)
  qed
  then show "365 * w \<le> DayFromYear (1970 + w)" and "DayFromYear (1970 + w) \<le> 366 * w"
    by simp_all
qed

lemma DayFromYear_abaixo:
  assumes "w \<le> 0"
  shows "366 * w \<le> DayFromYear (1970 + w)" and "DayFromYear (1970 + w) \<le> 365 * w"
proof -
  have "366 * w \<le> DayFromYear (1970 + w) \<and> DayFromYear (1970 + w) \<le> 365 * w"
    using assms
  proof (induction w rule: int_le_induct)
    case base
    then show ?case by (simp add: DayFromYear_1970)
  next
    case (step i)
    have "DayFromYear ((1970 + (i - 1)) + 1) = DayFromYear (1970 + (i - 1)) + DaysInYear (1970 + (i - 1))"
      by (rule DayFromYear_passo)
    moreover have "(1970 + (i - 1)) + 1 = 1970 + i" by simp
    ultimately have e: "DayFromYear (1970 + i) = DayFromYear (1970 + (i - 1)) + DaysInYear (1970 + (i - 1))"
      by simp
    from step.IH DaysInYear_limites [of "1970 + (i - 1)"] show ?case
      unfolding e by (simp add: right_diff_distrib)
  qed
  then show "366 * w \<le> DayFromYear (1970 + w)" and "DayFromYear (1970 + w) \<le> 365 * w"
    by simp_all
qed

lemma DayFromYear_mono: "a \<le> b \<Longrightarrow> DayFromYear a \<le> DayFromYear b"
proof (induction b rule: int_ge_induct)
  case base
  then show ?case by simp
next
  case (step i)
  from step.IH DaysInYear_limites(1) [of i] show ?case
    unfolding DayFromYear_passo by linarith
qed

lemma year_search_acha:
  "y' \<le> y \<Longrightarrow> nat (y - y') \<le> n \<Longrightarrow> DayFromYear y \<le> d \<Longrightarrow> d < DayFromYear (y + 1) \<Longrightarrow>
   year_search n d y' = y"
proof (induction n arbitrary: y')
  case 0
  then show ?case by simp
next
  case (Suc n)
  show ?case
  proof (cases "y' = y")
    case True
    with Suc.prems show ?thesis by simp
  next
    case False
    with Suc.prems have lt: "y' + 1 \<le> y" by simp
    then have "DayFromYear (y' + 1) \<le> DayFromYear y" by (rule DayFromYear_mono)
    with Suc.prems have le: "DayFromYear (y' + 1) \<le> d" by simp
    have "year_search n d (y' + 1) = y"
      using lt Suc.prems by (intro Suc.IH) simp_all
    with le show ?thesis by simp
  qed
qed

lemma div_limites:
  fixes d k :: int
  assumes "0 < k"
  shows "k * (d div k) \<le> d" and "d < k * (d div k + 1)"
proof -
  have e: "k * (d div k) + d mod k = d" by (rule mult_div_mod_eq)
  have m: "0 \<le> d mod k" "d mod k < k" using assms by simp_all
  from e m show "k * (d div k) \<le> d" by linarith
  have "k * (d div k + 1) = k * (d div k) + k" by (simp add: algebra_simps)
  moreover from e m have "d < k * (d div k) + k" by linarith
  ultimately show "d < k * (d div k + 1)" by simp
qed

lemma entre_multiplos:
  fixes k a b d :: int
  assumes "0 < k" "k * a \<le> d" "d < k * b"
  shows "a < b"
proof -
  from assms(2,3) have "k * a < k * b" by simp
  with assms(1) show ?thesis by (simp add: mult_less_cancel_left_pos)
qed

lemma YearFromDay_unico:
  assumes "DayFromYear (1970 + w) \<le> d" "d < DayFromYear (1970 + (w + 1))"
  shows "YearFromDay d = 1970 + w"
proof (cases "0 \<le> d")
  case True
  have w: "0 \<le> w"
  proof (rule ccontr)
    assume "\<not> 0 \<le> w"
    then have "w + 1 \<le> 0" by simp
    from DayFromYear_abaixo(2) [OF this] \<open>w + 1 \<le> 0\<close> have "DayFromYear (1970 + (w + 1)) \<le> 0"
      by (simp add: distrib_left)
    with assms True show False by simp
  qed
  have w1: "0 \<le> w + 1" using w by simp
  have a: "365 * w \<le> d" using DayFromYear_acima(1) [OF w] assms(1) by simp
  have b: "d < 366 * (w + 1)" using DayFromYear_acima(2) [OF w1] assms(2) by simp
  have "d div 366 < w + 1"
    by (rule entre_multiplos [OF _ div_limites(1) b]) simp_all
  then have lo: "1970 + d div 366 \<le> 1970 + w" by simp
  have "w < d div 365 + 1"
    by (rule entre_multiplos [OF _ a div_limites(2)]) simp_all
  then have hi: "nat ((1970 + w) - (1970 + d div 366)) \<le> nat (d div 365 - d div 366) + 2" by simp
  have e: "1970 + w + 1 = 1970 + (w + 1)" by simp
  have h2: "d < DayFromYear (1970 + w + 1)" using assms(2) by (simp only: e)
  have "year_search (nat (d div 365 - d div 366) + 2) d (1970 + d div 366) = 1970 + w"
    using lo hi assms(1) h2 by (rule year_search_acha)
  with True show ?thesis by (simp add: YearFromDay_def)
next
  case False
  then have neg: "d < 0" by simp
  have w1: "w + 1 \<le> 0"
  proof (rule ccontr)
    assume "\<not> w + 1 \<le> 0"
    then have "0 \<le> w" by simp
    from DayFromYear_acima(1) [OF this] \<open>0 \<le> w\<close> have "0 \<le> DayFromYear (1970 + w)" by linarith
    with assms neg show False by simp
  qed
  then have w: "w \<le> 0" by simp
  have a: "366 * w \<le> d" using DayFromYear_abaixo(1) [OF w] assms(1) by simp
  have b: "d < 365 * (w + 1)" using DayFromYear_abaixo(2) [OF w1] assms(2) by simp
  have "d div 365 < w + 1"
    by (rule entre_multiplos [OF _ div_limites(1) b]) simp_all
  then have lo: "1970 + d div 365 \<le> 1970 + w" by simp
  have a': "366 * (- w) \<ge> - d" using a by simp
  have "(- d) div 366 < - w + 1"
  proof (rule entre_multiplos [OF _ div_limites(1)])
    show "(0::int) < 366" by simp
    show "(0::int) < 366" by simp
    show "- d < 366 * (- w + 1)" using a' by (simp add: distrib_left)
  qed
  then have n6: "(- d) div 366 \<le> - w" by simp
  have b': "365 * (- w - 1) \<le> - d" using b by (simp add: distrib_left right_diff_distrib)
  have "- w - 1 < (- d) div 365 + 1"
    by (rule entre_multiplos [OF _ b' div_limites(2)]) simp_all
  then have n5: "- w \<le> (- d) div 365 + 1" by simp
  have c: "365 * (d div 365 + 1) > d" by (rule div_limites(2)) simp
  have "- (d div 365) - 2 < (- d) div 365 + 1"
  proof (rule entre_multiplos [OF _ _ div_limites(2)])
    show "(0::int) < 365" by simp
    show "(0::int) < 365" by simp
    show "365 * (- (d div 365) - 2) \<le> - d" using c by (simp add: distrib_left right_diff_distrib)
  qed
  then have q5: "- (d div 365) \<le> (- d) div 365 + 2" by simp
  have abs: "\<bar>d\<bar> = - d" using neg by simp
  have hi: "nat ((1970 + w) - (1970 + d div 365)) \<le> nat ((- d) div 365 - (- d) div 366) + 2"
    using n6 q5 by simp
  have e: "1970 + w + 1 = 1970 + (w + 1)" by simp
  have h2: "d < DayFromYear (1970 + w + 1)" using assms(2) by (simp only: e)
  have "year_search (nat ((- d) div 365 - (- d) div 366) + 2) d (1970 + d div 365) = 1970 + w"
    using lo hi assms(1) h2 by (rule year_search_acha)
  with neg show ?thesis by (simp add: YearFromDay_def abs)
qed


lemma YearFromDay_entre:
  assumes "DayFromYear y \<le> d" "d < DayFromYear y + DaysInYear y"
  shows "YearFromDay d = y"
proof -
  have e: "1970 + (y - 1970) = y" "1970 + (y - 1970 + 1) = y + 1" by simp_all
  have "YearFromDay d = 1970 + (y - 1970)"
    by (rule YearFromDay_unico) (simp_all only: e DayFromYear_passo assms)
  then show ?thesis by (simp only: e)
qed

lemma InLeapYear_casos: "InLeapYear y = 0 \<and> DaysInYear y = 365 \<or> InLeapYear y = 1 \<and> DaysInYear y = 366"
  by (simp add: InLeapYear_def DaysInYear_def)

lemma MakeDay_mes:
  assumes "0 \<le> m" "m \<le> 11"
  shows "MakeDay y m dd = DayFromYear y + (dias_antes_do_mes y m + dd - 1)"
proof -
  have "m div 12 = 0" "m mod 12 = m" using assms by simp_all
  then show ?thesis by (simp add: MakeDay_def)
qed

lemma dias_antes_limites:
  assumes "0 \<le> m" "m \<le> 11" "1 \<le> dd" "dd \<le> 31"
  shows "0 \<le> dias_antes_do_mes y m + dd - 1" "dias_antes_do_mes y m + dd - 1 < DaysInYear y"
  using assms InLeapYear_casos [of y]
  by (auto simp: dias_antes_do_mes_def Let_def)

lemma ida_e_volta_ano:
  assumes "0 \<le> m" "m \<le> 11" "1 \<le> dd" "dd \<le> 31"
  shows "YearFromDay (MakeDay y m dd) = y"
    and "DayWithinYear (MakeDay y m dd) = dias_antes_do_mes y m + dd - 1"
proof -
  note l = dias_antes_limites [OF assms, of y]
  show a: "YearFromDay (MakeDay y m dd) = y"
    unfolding MakeDay_mes [OF assms(1,2)]
    by (rule YearFromDay_entre) (use l in simp_all)
  show "DayWithinYear (MakeDay y m dd) = dias_antes_do_mes y m + dd - 1"
    unfolding DayWithinYear_def a by (simp add: MakeDay_mes [OF assms(1,2)])
qed

lemma MonthFromDay_casos:
  "MonthFromDay d =
     (if DayWithinYear d < 31 then 0
      else if DayWithinYear d < 59 + InLeapYear (YearFromDay d) then 1
      else if DayWithinYear d < 90 + InLeapYear (YearFromDay d) then 2
      else if DayWithinYear d < 120 + InLeapYear (YearFromDay d) then 3
      else if DayWithinYear d < 151 + InLeapYear (YearFromDay d) then 4
      else if DayWithinYear d < 181 + InLeapYear (YearFromDay d) then 5
      else if DayWithinYear d < 212 + InLeapYear (YearFromDay d) then 6
      else if DayWithinYear d < 243 + InLeapYear (YearFromDay d) then 7
      else if DayWithinYear d < 273 + InLeapYear (YearFromDay d) then 8
      else if DayWithinYear d < 304 + InLeapYear (YearFromDay d) then 9
      else if DayWithinYear d < 334 + InLeapYear (YearFromDay d) then 10
      else 11)"
  unfolding MonthFromDay_def Let_def ..

lemma ida_e_volta_mes_dia:
  assumes "m \<in> {0, 1, 2, 3, 4, 5, 6, 7, 8, 9, 10, 11}" "1 \<le> dd" "dd \<le> 31"
  shows "MonthFromDay (MakeDay y m dd) = m \<and> DateFromDay (MakeDay y m dd) = dd
         \<longleftrightarrow> dd \<le> dias_no_mes y (m + 1)"
proof -
  have m: "0 \<le> m" "m \<le> 11" using assms(1) by auto
  note r = ida_e_volta_ano [OF m assms(2,3), of y]
  define l where "l = InLeapYear y"
  have l: "l = 0 \<or> l = 1" unfolding l_def using InLeapYear_casos [of y] by auto
  show ?thesis
    using assms l
    unfolding DateFromDay_def MonthFromDay_casos r dias_no_mes_def dias_antes_do_mes_def
      l_def [symmetric] Let_def
    by (elim insertE disjE emptyE) simp_all
qed


lemma digit_val_limite: "is_digit c \<Longrightarrow> digit_val c \<le> 9"
  unfolding is_digit_def digit_val_def by arith

lemma digit_val_positivo:
  assumes "is_digit c" "c \<noteq> CHR ''0''"
  shows "1 \<le> digit_val c"
proof -
  have z: "char_of (48 :: nat) = CHR ''0''" by code_simp
  have "(of_char c :: nat) \<noteq> 48"
  proof
    assume "(of_char c :: nat) = 48"
    then have "char_of (of_char c :: nat) = (char_of (48 :: nat) :: char)" by (rule arg_cong)
    then have "c = CHR ''0''" by (simp only: char_of_char z)
    with assms(2) show False by simp
  qed
  with assms(1) show ?thesis unfolding is_digit_def digit_val_def by arith
qed

lemma regex_data_forma:
  assumes "regex_data s"
  obtains d1 d2 m1 m2 y1 y2 y3 y4 where
    "s = [d1, d2, CHR ''/'', m1, m2, CHR ''/'', y1, y2, y3, y4]"
    "(d1 = CHR ''0'' \<and> is_digit d2 \<and> d2 \<noteq> CHR ''0'')
       \<or> ((d1 = CHR ''1'' \<or> d1 = CHR ''2'') \<and> is_digit d2)
       \<or> (d1 = CHR ''3'' \<and> (d2 = CHR ''0'' \<or> d2 = CHR ''1''))"
    "(m1 = CHR ''0'' \<and> is_digit m2 \<and> m2 \<noteq> CHR ''0'')
       \<or> (m1 = CHR ''1'' \<and> (m2 = CHR ''0'' \<or> m2 = CHR ''1'' \<or> m2 = CHR ''2''))"
  using assms unfolding regex_data_def by (simp split: list.splits)

lemma regex_data_partes:
  assumes "regex_data s"
  shows "1 \<le> numero (parte_dia s)" "numero (parte_dia s) \<le> 31"
    "1 \<le> numero (parte_mes s)" "numero (parte_mes s) \<le> 12"
    "0 \<le> numero (parte_ano s)"
proof -
  from assms obtain d1 d2 m1 m2 y1 y2 y3 y4 where
    s: "s = [d1, d2, CHR ''/'', m1, m2, CHR ''/'', y1, y2, y3, y4]"
    and d: "(d1 = CHR ''0'' \<and> is_digit d2 \<and> d2 \<noteq> CHR ''0'')
       \<or> ((d1 = CHR ''1'' \<or> d1 = CHR ''2'') \<and> is_digit d2)
       \<or> (d1 = CHR ''3'' \<and> (d2 = CHR ''0'' \<or> d2 = CHR ''1''))"
    and m: "(m1 = CHR ''0'' \<and> is_digit m2 \<and> m2 \<noteq> CHR ''0'')
       \<or> (m1 = CHR ''1'' \<and> (m2 = CHR ''0'' \<or> m2 = CHR ''1'' \<or> m2 = CHR ''2''))"
    by (rule regex_data_forma)
  have dia: "numero (parte_dia s) = 10 * int (digit_val d1) + int (digit_val d2)"
    by (simp add: s numero_def parte_dia_def)
  have mes: "numero (parte_mes s) = 10 * int (digit_val m1) + int (digit_val m2)"
    by (simp add: s numero_def parte_mes_def)
  have c: "digit_val CHR ''0'' = 0" "digit_val CHR ''1'' = 1" "digit_val CHR ''2'' = 2"
    "digit_val CHR ''3'' = 3"
    by (simp_all add: digit_val_def)
  show "1 \<le> numero (parte_dia s)" "numero (parte_dia s) \<le> 31"
    unfolding dia using d digit_val_limite [of d2] digit_val_positivo [of d2]
    by (auto simp: c)
  show "1 \<le> numero (parte_mes s)" "numero (parte_mes s) \<le> 12"
    unfolding mes using m digit_val_limite [of m2] digit_val_positivo [of m2]
    by (auto simp: c)
  show "0 \<le> numero (parte_ano s)"
    by (simp add: s numero_def parte_ano_def)
qed

lemma validarData_calendario:
  "validarData s \<longleftrightarrow>
     regex_data s \<and> 100 \<le> numero (parte_ano s)
       \<and> numero (parte_dia s) \<le> dias_no_mes (numero (parte_ano s)) (numero (parte_mes s))"
proof (cases "regex_data s")
  case False
  then show ?thesis by (simp add: validarData_def)
next
  case True
  define dia mes ano where "dia = numero (parte_dia s)" and "mes = numero (parte_mes s)"
    and "ano = numero (parte_ano s)"
  define yr where "yr = (if 0 \<le> ano \<and> ano \<le> 99 then 1900 + ano else ano)"
  note p = regex_data_partes [OF True, folded dia_def mes_def ano_def]
  have n: "s \<noteq> []" using True by (auto simp: regex_data_def)
  have m0: "0 \<le> mes - 1" "mes - 1 \<le> 11" using p by simp_all
  have ms: "mes - 1 \<in> {0, 1, 2, 3, 4, 5, 6, 7, 8, 9, 10, 11}"
    using m0 by (simp only: insert_iff empty_iff) arith
  have v: "validarData s \<longleftrightarrow>
      YearFromDay (MakeDay yr (mes - 1) dia) = ano
      \<and> MonthFromDay (MakeDay yr (mes - 1) dia) = mes - 1
      \<and> DateFromDay (MakeDay yr (mes - 1) dia) = dia"
    using True n
    by (simp add: validarData_def Let_def new_Date_def getFullYear_def getMonth_def
        getDate_def dia_def mes_def ano_def yr_def)
  have y: "YearFromDay (MakeDay yr (mes - 1) dia) = yr"
    by (rule ida_e_volta_ano(1) [OF m0 p(1,2)])
  have md: "MonthFromDay (MakeDay yr (mes - 1) dia) = mes - 1
      \<and> DateFromDay (MakeDay yr (mes - 1) dia) = dia \<longleftrightarrow> dia \<le> dias_no_mes yr mes"
    using ida_e_volta_mes_dia [OF ms p(1,2), of yr] by simp
  have a: "yr = ano \<longleftrightarrow> 100 \<le> ano" using p(5) by (simp add: yr_def)
  have "validarData s \<longleftrightarrow> 100 \<le> ano \<and> dia \<le> dias_no_mes yr mes"
    using v y md a by simp
  also have "\<dots> \<longleftrightarrow> 100 \<le> ano \<and> dia \<le> dias_no_mes ano mes"
    using a by auto
  finally show ?thesis using True by (simp add: dia_def mes_def ano_def)
qed

text \<open>
  Claim C3. A string is accepted exactly when it matches the pattern, its year is at least
  100 and its day exists in its month of its year; the four dates of the claim behave as it
  says, and so do 31/01/2024 and 31/04/2024. But \<^verbatim>\<open>new Date(ano, mes - 1, dia)\<close> reads a
  year from 0 to 99 as 1900 + year, so \<^verbatim>\<open>getFullYear()\<close> never gives such a year back:
  29/02/0004 matches the pattern, the year 4 is a leap year, and \<open>validarData\<close> rejects the
  date, as it rejects 01/01/0050.
\<close>

theorem validarData_ano_de_dois_digitos:
  "(validarData s \<longleftrightarrow>
      regex_data s \<and> 100 \<le> numero (parte_ano s)
        \<and> numero (parte_dia s) \<le> dias_no_mes (numero (parte_ano s)) (numero (parte_mes s)))
   \<and> regex_data ''29/02/0004'' \<and> DaysInYear 4 = 366 \<and> dias_no_mes 4 2 = 29
   \<and> validarData ''29/02/0004'' = False
   \<and> regex_data ''01/01/0050'' \<and> validarData ''01/01/0050'' = False
   \<and> getFullYear (new_Date 4 1 29) = 1904
   \<and> validarData ''29/02/2024'' \<and> validarData ''29/02/2000''
   \<and> validarData ''29/02/2023'' = False \<and> validarData ''29/02/1900'' = False
   \<and> validarData ''31/01/2024'' \<and> validarData ''31/04/2024'' = False"
proof -
  have "regex_data ''29/02/0004''" by code_simp
  moreover have "DaysInYear 4 = 366" by code_simp
  moreover have "dias_no_mes 4 2 = 29" by code_simp
  moreover have "validarData ''29/02/0004'' = False" by code_simp
  moreover have "regex_data ''01/01/0050''" by code_simp
  moreover have "validarData ''01/01/0050'' = False" by code_simp
  moreover have "getFullYear (new_Date 4 1 29) = 1904" by code_simp
  moreover have "validarData ''29/02/2024''" by code_simp
  moreover have "validarData ''29/02/2000''" by code_simp
  moreover have "validarData ''29/02/2023'' = False" by code_simp
  moreover have "validarData ''29/02/1900'' = False" by code_simp
  moreover have "validarData ''31/01/2024''" by code_simp
  moreover have "validarData ''31/04/2024'' = False" by code_simp
  ultimately show ?thesis using validarData_calendario [of s] by simp
qed

theorem validarData_ano_de_dois_digitos_witness:
  "\<not> validarData ''29/02/0004'' \<and> \<not> validarData ''01/01/0050''
   \<and> validarData ''29/02/2024''
   \<and> numero (parte_dia ''29/02/2024'')
        \<le> dias_no_mes (numero (parte_ano ''29/02/2024'')) (numero (parte_mes ''29/02/2024''))"
  using validarData_ano_de_dois_digitos [of "''29/02/2024''"] by blast

subsection \<open>DELETE /reservas/:id\<close>

lemma campo_atribuir:
  "campo (atribuir k v linha) k' = (if k' = k then v else campo linha k')"
  by (induction linha) (auto simp: campo_def)

lemma campo_aplicar_Status:
  "campo (aplicar [(''Status'', v)] linha) k = (if k = ''Status'' then v else campo linha k)"
  by (simp add: campo_atribuir)

lemma pg_single_casos:
  "pg_single r = Retorno d e \<Longrightarrow> e = None \<Longrightarrow> d \<noteq> None \<Longrightarrow>
     \<exists>x. rdata r = Some [x] \<and> rerror r = None \<and> d = Some x"
  by (cases r rule: pg_single.cases) auto

text \<open>The only states the handler can leave behind.\<close>

lemma delete_reserva_estado:
  assumes "delete_reserva (Some b) req = (r, s)"
  shows "s = Some b \<or>
         s = Some (b\<lparr>reservas :=
               map (\<lambda>x. if id_igual b (campo x ''ReservaID'') (params_id req)
                         then aplicar [(''Status'', JStr ''cancelada'')] x else x)
                 (reservas b)\<rparr>)"
proof (cases "params_id req = [] \<or> isNaN (params_id req)")
  case True
  with assms show ?thesis by (auto simp: delete_reserva_def)
next
  case False
  obtain d e where sel: "pg_single (reservas_select_eq b (params_id req)) = Retorno d e"
    by (cases "pg_single (reservas_select_eq b (params_id req))")
  show ?thesis
  proof (cases "e \<noteq> None \<or> d = None")
    case True
    with assms False sel show ?thesis by (auto simp: delete_reserva_def)
  next
    case ok: False
    obtain d' e' b' where upd:
      "reservas_update_eq b [(''Status'', JStr ''cancelada'')] (params_id req) = (Retorno d' e', b')"
      by (metis retorno.exhaust surj_pair)
    have b': "b' = b \<or> b' = b\<lparr>reservas :=
               map (\<lambda>x. if id_igual b (campo x ''ReservaID'') (params_id req)
                         then aplicar [(''Status'', JStr ''cancelada'')] x else x)
                 (reservas b)\<rparr>"
      using upd by (auto simp: reservas_update_eq_def split: option.splits)
    have "s = Some b'"
      using assms False sel ok upd
      by (auto simp: delete_reserva_def split: option.splits list.splits)
    with b' show ?thesis by auto
  qed
qed


lemma delete_reserva_sem_linha:
  assumes "params_id req \<noteq> []" "\<not> isNaN (params_id req)"
    and "filter (\<lambda>x. id_igual b (campo x ''ReservaID'') (params_id req)) (reservas b) = []"
  shows "delete_reserva (Some b) req =
           (respostaErro 404 (''Reserva n'' @ [CHR 0xE3] @ ''o encontrada'') None, Some b)"
  using assms
  by (cases "falha_consulta b") (simp_all add: delete_reserva_def reservas_select_eq_def)

lemma delete_reserva_uma_linha:
  assumes "params_id req \<noteq> []" "\<not> isNaN (params_id req)"
    and "filter (\<lambda>x. id_igual b (campo x ''ReservaID'') (params_id req)) (reservas b) = [x]"
    and "falha_consulta b = None" "falha_atualizacao b = None"
  shows "delete_reserva (Some b) req =
           (respostaSucesso 200 ''Reserva cancelada com sucesso''
              (JObj (aplicar [(''Status'', JStr ''cancelada'')] x)),
            Some (b\<lparr>reservas :=
               map (\<lambda>x. if id_igual b (campo x ''ReservaID'') (params_id req)
                         then aplicar [(''Status'', JStr ''cancelada'')] x else x)
                 (reservas b)\<rparr>))"
  using assms
  by (simp add: delete_reserva_def reservas_select_eq_def reservas_update_eq_def)

text \<open>
  Claim C6. For a DELETE /reservas/:id request with a numeric id: the table keeps all its
  rows, every property other than \<^verbatim>\<open>Status\<close> of every row is what it was, a row is touched
  only if its \<^verbatim>\<open>ReservaID\<close> is the id of the path, and a touched row has the status
  \<^verbatim>\<open>cancelada\<close>; when no reservation has the id, the response is 404 and the table is
  unchanged; when one has it (and the store answers both queries), the response is 200 with
  the cancelled reservation, and the new table is the old one with that status set.
\<close>

theorem delete_reserva_cancela:
  assumes "params_id req \<noteq> []" "\<not> isNaN (params_id req)"
    and "delete_reserva (Some b) req = (r, s)"
  shows "(\<exists>b'. s = Some b' \<and> length (reservas b') = length (reservas b)
            \<and> (\<forall>i<length (reservas b). \<forall>k. k \<noteq> ''Status'' \<longrightarrow>
                  campo (reservas b' ! i) k = campo (reservas b ! i) k)
            \<and> (\<forall>i<length (reservas b).
                  \<not> id_igual b (campo (reservas b ! i) ''ReservaID'') (params_id req) \<longrightarrow>
                  reservas b' ! i = reservas b ! i)
            \<and> (\<forall>i<length (reservas b). reservas b' ! i \<noteq> reservas b ! i \<longrightarrow>
                  campo (reservas b' ! i) ''Status'' = JStr ''cancelada''))
       \<and> (filter (\<lambda>x. id_igual b (campo x ''ReservaID'') (params_id req)) (reservas b) = [] \<longrightarrow>
            statusCode r = 404 \<and> s = Some b)
       \<and> (\<forall>x. filter (\<lambda>x. id_igual b (campo x ''ReservaID'') (params_id req)) (reservas b) = [x]
              \<and> falha_consulta b = None \<and> falha_atualizacao b = None \<longrightarrow>
            statusCode r = 200
            \<and> dados r = Some (JObj (aplicar [(''Status'', JStr ''cancelada'')] x))
            \<and> campo (aplicar [(''Status'', JStr ''cancelada'')] x) ''Status'' = JStr ''cancelada''
            \<and> s = Some (b\<lparr>reservas :=
                   map (\<lambda>x. if id_igual b (campo x ''ReservaID'') (params_id req)
                             then aplicar [(''Status'', JStr ''cancelada'')] x else x)
                     (reservas b)\<rparr>))"
proof (intro conjI)
  let ?novo = "b\<lparr>reservas :=
               map (\<lambda>x. if id_igual b (campo x ''ReservaID'') (params_id req)
                         then aplicar [(''Status'', JStr ''cancelada'')] x else x)
                 (reservas b)\<rparr>"
  have quadro: "length (reservas b') = length (reservas b)
            \<and> (\<forall>i<length (reservas b). \<forall>k. k \<noteq> ''Status'' \<longrightarrow>
                  campo (reservas b' ! i) k = campo (reservas b ! i) k)
            \<and> (\<forall>i<length (reservas b).
                  \<not> id_igual b (campo (reservas b ! i) ''ReservaID'') (params_id req) \<longrightarrow>
                  reservas b' ! i = reservas b ! i)
            \<and> (\<forall>i<length (reservas b). reservas b' ! i \<noteq> reservas b ! i \<longrightarrow>
                  campo (reservas b' ! i) ''Status'' = JStr ''cancelada'')"
    if "b' = b \<or> b' = ?novo" for b'
    using that by (auto simp: campo_atribuir)
  from delete_reserva_estado [OF assms(3)] have "s = Some b \<or> s = Some ?novo" .
  then obtain b' where "s = Some b'" "b' = b \<or> b' = ?novo" by auto
  with quadro [of b']
  show "\<exists>b'. s = Some b' \<and> length (reservas b') = length (reservas b)
            \<and> (\<forall>i<length (reservas b). \<forall>k. k \<noteq> ''Status'' \<longrightarrow>
                  campo (reservas b' ! i) k = campo (reservas b ! i) k)
            \<and> (\<forall>i<length (reservas b).
                  \<not> id_igual b (campo (reservas b ! i) ''ReservaID'') (params_id req) \<longrightarrow>
                  reservas b' ! i = reservas b ! i)
            \<and> (\<forall>i<length (reservas b). reservas b' ! i \<noteq> reservas b ! i \<longrightarrow>
                  campo (reservas b' ! i) ''Status'' = JStr ''cancelada'')"
    by blast
next
  show "filter (\<lambda>x. id_igual b (campo x ''ReservaID'') (params_id req)) (reservas b) = [] \<longrightarrow>
            statusCode r = 404 \<and> s = Some b"
    using delete_reserva_sem_linha [OF assms(1,2), of b] assms(3)
    by (auto simp: respostaErro_def)
next
  show "\<forall>x. filter (\<lambda>x. id_igual b (campo x ''ReservaID'') (params_id req)) (reservas b) = [x]
              \<and> falha_consulta b = None \<and> falha_atualizacao b = None \<longrightarrow>
            statusCode r = 200
            \<and> dados r = Some (JObj (aplicar [(''Status'', JStr ''cancelada'')] x))
            \<and> campo (aplicar [(''Status'', JStr ''cancelada'')] x) ''Status'' = JStr ''cancelada''
            \<and> s = Some (b\<lparr>reservas :=
                   map (\<lambda>x. if id_igual b (campo x ''ReservaID'') (params_id req)
                             then aplicar [(''Status'', JStr ''cancelada'')] x else x)
                     (reservas b)\<rparr>)"
  proof (intro allI impI, elim conjE)
    fix x
    assume "filter (\<lambda>x. id_igual b (campo x ''ReservaID'') (params_id req)) (reservas b) = [x]"
      and "falha_consulta b = None" and "falha_atualizacao b = None"
    from delete_reserva_uma_linha [OF assms(1,2) this] assms(3)
    show "statusCode r = 200
            \<and> dados r = Some (JObj (aplicar [(''Status'', JStr ''cancelada'')] x))
            \<and> campo (aplicar [(''Status'', JStr ''cancelada'')] x) ''Status'' = JStr ''cancelada''
            \<and> s = Some (b\<lparr>reservas :=
                   map (\<lambda>x. if id_igual b (campo x ''ReservaID'') (params_id req)
                             then aplicar [(''Status'', JStr ''cancelada'')] x else x)
                     (reservas b)\<rparr>)"
      by (auto simp: respostaSucesso_def campo_atribuir)
  qed
qed

theorem delete_reserva_cancela_witness:
  "fst (delete_reserva (Some exemplo_banco)
          \<lparr>authorization = None, params_id = ''1'', query = [], body = []\<rparr>) =
     respostaSucesso 200 ''Reserva cancelada com sucesso''
       (JObj [(''ReservaID'', JNum 1), (''ClienteID'', JNum 10), (''LivroID'', JNum 5),
              (''QuantidadeReservada'', JNum 2), (''Status'', JStr ''cancelada'')])
   \<and> snd (delete_reserva (Some exemplo_banco)
          \<lparr>authorization = None, params_id = ''1'', query = [], body = []\<rparr>) =
     Some (exemplo_banco\<lparr>reservas :=
        [[(''ReservaID'', JNum 1), (''ClienteID'', JNum 10), (''LivroID'', JNum 5),
          (''QuantidadeReservada'', JNum 2), (''Status'', JStr ''cancelada'')],
         [(''ReservaID'', JNum 2), (''ClienteID'', JNum 11), (''LivroID'', JNum 6),
          (''QuantidadeReservada'', JNum 1), (''Status'', JStr ''finalizada'')]]\<rparr>)
   \<and> statusCode (fst (delete_reserva (Some exemplo_banco)
          \<lparr>authorization = None, params_id = ''3'', query = [], body = []\<rparr>)) = 404
   \<and> snd (delete_reserva (Some exemplo_banco)
          \<lparr>authorization = None, params_id = ''3'', query = [], body = []\<rparr>) = Some exemplo_banco"
proof -
  let ?r1 = "\<lparr>authorization = None, params_id = ''1'', query = [], body = []\<rparr>"
  let ?r3 = "\<lparr>authorization = None, params_id = ''3'', query = [], body = []\<rparr>"
  have n1: "\<not> isNaN (params_id ?r1)" by code_simp
  have n3: "\<not> isNaN (params_id ?r3)" by code_simp
  have p1: "params_id ?r1 \<noteq> []" and p3: "params_id ?r3 \<noteq> []" by simp_all
  have f1: "filter (\<lambda>x. id_igual exemplo_banco (campo x ''ReservaID'') (params_id ?r1))
              (reservas exemplo_banco) =
            [[(''ReservaID'', JNum 1), (''ClienteID'', JNum 10), (''LivroID'', JNum 5),
              (''QuantidadeReservada'', JNum 2), (''Status'', JStr ''ativa'')]]"
    by (simp add: exemplo_banco_def campo_def)
  have f3: "filter (\<lambda>x. id_igual exemplo_banco (campo x ''ReservaID'') (params_id ?r3))
              (reservas exemplo_banco) = []"
    by (simp add: exemplo_banco_def campo_def)
  have semfalha: "falha_consulta exemplo_banco = None" "falha_atualizacao exemplo_banco = None"
    by (simp_all add: exemplo_banco_def)
  obtain ra sa where a: "delete_reserva (Some exemplo_banco) ?r1 = (ra, sa)" by (cases "delete_reserva (Some exemplo_banco) ?r1")
  obtain rc sc where c: "delete_reserva (Some exemplo_banco) ?r3 = (rc, sc)" by (cases "delete_reserva (Some exemplo_banco) ?r3")
  from delete_reserva_cancela [OF p1 n1 a, THEN conjunct2, THEN conjunct2, rule_format, OF conjI [OF f1 conjI [OF semfalha]]]
  have A: "statusCode ra = 200"
     "dados ra = Some (JObj (aplicar [(''Status'', JStr ''cancelada'')]
          [(''ReservaID'', JNum 1), (''ClienteID'', JNum 10), (''LivroID'', JNum 5),
              (''QuantidadeReservada'', JNum 2), (''Status'', JStr ''ativa'')]))"
     "sa = Some (exemplo_banco\<lparr>reservas :=
                   map (\<lambda>x. if id_igual exemplo_banco (campo x ''ReservaID'') (params_id ?r1)
                             then aplicar [(''Status'', JStr ''cancelada'')] x else x)
                     (reservas exemplo_banco)\<rparr>)"
    by simp_all
  from delete_reserva_cancela [OF p3 n3 c, THEN conjunct2, THEN conjunct1, rule_format, OF f3]
  have C: "statusCode rc = 404" "sc = Some exemplo_banco" by simp_all
  have ra: "ra = respostaSucesso 200 ''Reserva cancelada com sucesso''
       (JObj [(''ReservaID'', JNum 1), (''ClienteID'', JNum 10), (''LivroID'', JNum 5),
              (''QuantidadeReservada'', JNum 2), (''Status'', JStr ''cancelada'')])"
    using a delete_reserva_uma_linha [OF p1 n1 f1 semfalha] by simp
  have sa: "sa = Some (exemplo_banco\<lparr>reservas :=
        [[(''ReservaID'', JNum 1), (''ClienteID'', JNum 10), (''LivroID'', JNum 5),
          (''QuantidadeReservada'', JNum 2), (''Status'', JStr ''cancelada'')],
         [(''ReservaID'', JNum 2), (''ClienteID'', JNum 11), (''LivroID'', JNum 6),
          (''QuantidadeReservada'', JNum 1), (''Status'', JStr ''finalizada'')]]\<rparr>)"
    unfolding A(3) by (simp add: exemplo_banco_def campo_def)
  from ra sa C a c show ?thesis by simp
qed

subsection \<open>The validation library on arbitrary values\<close>









subsection \<open>POST /reservas\<close>



















text \<open>
  A title that two books contain: \<^verbatim>\<open>.maybeSingle()\<close> answers several rows with an error, and
  the response is 500.
\<close>

lemma post_reservas_titulo_ambiguo:
  "livro_ilike_nome exemplo_loja_reserva ''%a%'' =
       Retorno (Some
         [[(''LivroID'', JNum 5), (''NomeLivro'', JStr ''Casa''), (''QuantidadeDisponivel'', JNum 3)],
          [(''LivroID'', JNum 6), (''NomeLivro'', JStr ''Mar''), (''QuantidadeDisponivel'', JNum 1)]])
         None
   \<and> statusCode (post_reservas exemplo_js (Some exemplo_loja_reserva) (exemplo_req_reserva ''a'' 1)) = 500
   \<and> message (post_reservas exemplo_js (Some exemplo_loja_reserva) (exemplo_req_reserva ''a'' 1)) =
       ''Erro na consulta de livro''"
proof -
  have a: "validar_reserva exemplo_js (body (exemplo_req_reserva ''a'' 1)) =
     Inr \<lparr>d_CPF = ''529.982.247-25'', d_NomeLivro = Some ''a'', d_LivroID = JNull,
          d_QntdLivro = 1, d_Entrega = ''Retirada'', d_Observacao = JUndefined,
          d_dataRetirada = ''2024-03-15'', d_dataVolta = ''2024-03-29''\<rparr>"
    by code_simp
  have b: "cliente_por_cpf exemplo_loja_reserva ''529.982.247-25'' =
       Retorno (Some [[(''ClienteID'', JNum 10)]]) None"
    by (simp add: exemplo_loja_reserva_def)
  have c: "livro_ilike_nome exemplo_loja_reserva ''%a%'' =
       Retorno (Some
         [[(''LivroID'', JNum 5), (''NomeLivro'', JStr ''Casa''), (''QuantidadeDisponivel'', JNum 3)],
          [(''LivroID'', JNum 6), (''NomeLivro'', JStr ''Mar''), (''QuantidadeDisponivel'', JNum 1)]])
         None"
    by code_simp
  have d: "post_reservas exemplo_js (Some exemplo_loja_reserva) (exemplo_req_reserva ''a'' 1) =
       respostaErro 500 ''Erro na consulta de livro'' None"
    unfolding post_reservas_def a
    by (simp add: reservar_def b c buscar_livro_def consulta_livro_def)
  from c d show ?thesis by (simp add: respostaErro_def)
qed



end
